theory Spec2Isabelle
  imports Main
begin

section \<open>The E1.31 server of lib/server.js\<close>

text \<open>
  The theory embeds the \<^verbatim>\<open>Server\<close> constructor, its socket handlers and the
  methods \<^verbatim>\<open>close\<close>, \<^verbatim>\<open>addUniverses\<close> and \<^verbatim>\<open>dropUniverses\<close> of
  \<^verbatim>\<open>src/lib/server.js\<close>.

  \<^item> A universe is a natural number. The constructor's first parameter is undefined, a
    number, an array of numbers or a configuration object.
  \<^item> Arrays and configuration objects that the caller hands over live in a store and are
    passed by address, because the constructor keeps and mutates them. The argument of
    \<^verbatim>\<open>addUniverses\<close> and \<^verbatim>\<open>dropUniverses\<close> is an array of the store, which may be
    the array \<^verbatim>\<open>this.universes\<close> itself, or an array literal written at the call.
  \<^item> The datagram socket of Node's \<^verbatim>\<open>dgram\<close> is the list of the calls made on it, in
    order. What \<^verbatim>\<open>dgram\<close> does with a call (for instance raising on a socket that is
    not listening) is outside this theory.
  \<^item> The event emitter is the list of the events emitted, in order.
  \<^item> The module \<^verbatim>\<open>./e131\<close> (the packet codec, the multicast group of a universe
    and the default port) is a parameter of every function that uses it.
\<close>

subsection \<open>Values, configuration objects and the store\<close>

type_synonym addr = nat

text \<open>The first parameter \<^verbatim>\<open>universes\<close> of the constructor.\<close>

datatype arg = Undefined | Number nat | ArrayRef addr | ConfigRef addr

text \<open>The property \<^verbatim>\<open>universes\<close> of a configuration object.\<close>

datatype cfg_value = CUndefined | CNumber nat | CArray addr

record config =
  cfg_universes :: cfg_value
  cfg_port :: "nat option"
  cfg_mcastif :: "string option"
  cfg_bind :: "string option"
  cfg_loopback :: "bool option"

definition empty_config :: config where
  "empty_config = \<lparr>cfg_universes = CUndefined, cfg_port = None, cfg_mcastif = None,
     cfg_bind = None, cfg_loopback = None\<rparr>"

text \<open>The store: an address is an index into the list of its kind.\<close>

record store =
  arrays :: "nat list list"
  objects :: "config list"

definition empty_store :: store where
  "empty_store = \<lparr>arrays = [], objects = []\<rparr>"

definition allocArray :: "store \<Rightarrow> nat list \<Rightarrow> store \<times> addr" where
  "allocArray st xs = (st\<lparr>arrays := arrays st @ [xs]\<rparr>, length (arrays st))"

definition allocObject :: "store \<Rightarrow> config \<Rightarrow> store \<times> addr" where
  "allocObject st c = (st\<lparr>objects := objects st @ [c]\<rparr>, length (objects st))"

text \<open>The elements of the array at an address (no array there: no elements).\<close>

definition elems :: "store \<Rightarrow> addr \<Rightarrow> nat list" where
  "elems st a = (if a < length (arrays st) then arrays st ! a else [])"

definition setElems :: "store \<Rightarrow> addr \<Rightarrow> nat list \<Rightarrow> store" where
  "setElems st a xs = st\<lparr>arrays := (arrays st)[a := xs]\<rparr>"

text \<open>
  Reading the configuration properties of the value bound to \<^verbatim>\<open>config\<close>: an array
  has none of them, so every one reads as undefined.
\<close>

definition properties :: "store \<Rightarrow> arg \<Rightarrow> config" where
  "properties st v =
     (case v of
        ConfigRef a \<Rightarrow> (if a < length (objects st) then objects st ! a else empty_config)
      | _ \<Rightarrow> empty_config)"

text \<open>The assignment \<^verbatim>\<open>config.universes = v\<close>.\<close>

definition setUniverses :: "store \<Rightarrow> arg \<Rightarrow> cfg_value \<Rightarrow> store" where
  "setUniverses st v u =
     (case v of
        ConfigRef a \<Rightarrow>
          (if a < length (objects st)
           then st\<lparr>objects := (objects st)[a := (objects st ! a)\<lparr>cfg_universes := u\<rparr>]\<rparr>
           else st)
      | _ \<Rightarrow> st)"

definition instanceofObject :: "arg \<Rightarrow> bool" where
  "instanceofObject v = (case v of ArrayRef _ \<Rightarrow> True | ConfigRef _ \<Rightarrow> True | _ \<Rightarrow> False)"

text \<open>
  \<^verbatim>\<open>a || d\<close> for an optional port number: undefined and 0 are falsy.
\<close>

definition port_or :: "nat option \<Rightarrow> nat \<Rightarrow> nat" where
  "port_or p d = (case p of None \<Rightarrow> d | Some n \<Rightarrow> if n = 0 then d else n)"

subsection \<open>The socket, the events and the module e131\<close>

datatype 'g sockcall =
    CreateSocket bool
  | Bind nat "string option"
  | SetMulticastInterface string
  | SetMulticastLoopback bool
  | AddMembership 'g "string option"
  | DropMembership 'g "string option"
  | SocketClose

datatype ('p, 'v) event =
    EvError string
  | EvListening
  | EvClose
  | EvPacketError 'p 'v
  | EvPacketOutOfOrder 'p
  | EvPacket 'p

text \<open>
  What \<^verbatim>\<open>server.js\<close> uses of \<^verbatim>\<open>require('./e131')\<close>: \<^verbatim>\<open>new e131.Packet(msg)\<close>,
  the packet's methods and its constant \<^verbatim>\<open>ERR_NONE\<close>, \<^verbatim>\<open>e131.getMulticastGroup\<close>
  and \<^verbatim>\<open>e131.DEFAULT_PORT\<close>. The argument of \<^verbatim>\<open>discard\<close> is the stored last
  sequence number, undefined (\<open>None\<close>) when the universe has none.
\<close>

record ('m, 'p, 'v, 'g) e131 =
  Packet :: "'m \<Rightarrow> 'p"
  validate :: "'p \<Rightarrow> 'v"
  ERR_NONE :: 'v
  getUniverse :: "'p \<Rightarrow> nat"
  getSequenceNumber :: "'p \<Rightarrow> nat"
  discard :: "'p \<Rightarrow> nat option \<Rightarrow> bool"
  getMulticastGroup :: "nat \<Rightarrow> 'g"
  DEFAULT_PORT :: nat

subsection \<open>The server object\<close>

text \<open>
  \<open>universes\<close> is the address of the array \<^verbatim>\<open>this.universes\<close>; \<open>config\<close> is the
  variable \<^verbatim>\<open>config\<close> that the bind callback of the configuration form closes over
  (\<open>None\<close> in the positional form); \<open>heap\<close> is the store shared with the caller.
\<close>

record ('p, 'v, 'g) server =
  heap :: store
  universes :: addr
  port :: nat
  mcastif :: "string option"
  config :: "arg option"
  lastSequenceNumber :: "nat \<rightharpoonup> nat"
  socket :: "'g sockcall list"
  emitted :: "('p, 'v) event list"

definition emit :: "('p, 'v, 'g) server \<Rightarrow> ('p, 'v) event \<Rightarrow> ('p, 'v, 'g) server" where
  "emit s ev = s\<lparr>emitted := emitted s @ [ev]\<rparr>"

definition call :: "('p, 'v, 'g) server \<Rightarrow> 'g sockcall \<Rightarrow> ('p, 'v, 'g) server" where
  "call s c = s\<lparr>socket := socket s @ [c]\<rparr>"

text \<open>The tracked universes: the elements of \<^verbatim>\<open>this.universes\<close>.\<close>

definition tracked :: "('p, 'v, 'g) server \<Rightarrow> nat list" where
  "tracked s = elems (heap s) (universes s)"

text \<open>
  The constructor (lines 29 to 98) up to the registration of the handlers. The first
  branch is the configuration form, the second the positional form.
\<close>

definition Server ::
  "('m, 'p, 'v, 'g) e131 \<Rightarrow> store \<Rightarrow> arg \<Rightarrow> nat option \<Rightarrow> ('p, 'v, 'g) server" where
  "Server e st universes0 port0 =
     (if instanceofObject universes0 \<or> universes0 = Undefined then
        (let (st1, config0) =
               (if universes0 = Undefined
                then (let (st', a) = allocObject st empty_config in (st', ConfigRef a))
                else (st, universes0));
             st2 =
               (case cfg_universes (properties st1 config0) of
                  CNumber n \<Rightarrow>
                    (let (st', r) = allocArray st1 [n] in setUniverses st' config0 (CArray r))
                | _ \<Rightarrow> st1);
             c = properties st2 config0;
             (st3, us) =
               (case cfg_universes c of
                  CArray r \<Rightarrow> (st2, r)
                | _ \<Rightarrow> allocArray st2 []);
             p = port_or (cfg_port c) (port_or port0 (DEFAULT_PORT e))
         in \<lparr>heap = st3, universes = us, port = p, mcastif = cfg_mcastif c,
              config = Some config0, lastSequenceNumber = Map.empty,
              socket = [CreateSocket True, Bind p (cfg_bind c)], emitted = []\<rparr>)
      else
        (let (st1, universes1) =
               (case universes0 of
                  Number n \<Rightarrow> (let (st', r) = allocArray st [n] in (st', ArrayRef r))
                | _ \<Rightarrow> (st, universes0));
             (st2, us) =
               (case universes1 of
                  ArrayRef r \<Rightarrow> (st1, r)
                | _ \<Rightarrow> allocArray st1 [1]);
             p = port_or port0 (DEFAULT_PORT e)
         in \<lparr>heap = st2, universes = us, port = p, mcastif = None,
              config = None, lastSequenceNumber = Map.empty,
              socket = [CreateSocket False, Bind p None], emitted = []\<rparr>))"

subsection \<open>The callbacks\<close>

text \<open>The callback given to \<^verbatim>\<open>bind\<close>: lines 45 to 58 and lines 66 to 71.\<close>

definition joinTracked ::
  "('m, 'p, 'v, 'g) e131 \<Rightarrow> ('p, 'v, 'g) server \<Rightarrow> nat \<Rightarrow> ('p, 'v, 'g) server" where
  "joinTracked e s universe =
     call (s\<lparr>lastSequenceNumber := (lastSequenceNumber s)(universe \<mapsto> 0)\<rparr>)
       (AddMembership (getMulticastGroup e universe) (mcastif s))"

definition joinOnly ::
  "('m, 'p, 'v, 'g) e131 \<Rightarrow> ('p, 'v, 'g) server \<Rightarrow> nat \<Rightarrow> ('p, 'v, 'g) server" where
  "joinOnly e s universe = call s (AddMembership (getMulticastGroup e universe) None)"

definition bindCallback ::
  "('m, 'p, 'v, 'g) e131 \<Rightarrow> ('p, 'v, 'g) server \<Rightarrow> ('p, 'v, 'g) server" where
  "bindCallback e s =
     (case config s of
        Some config0 \<Rightarrow>
          (let s1 = (case mcastif s of
                       Some i \<Rightarrow> call s (SetMulticastInterface i)
                     | None \<Rightarrow> s);
               s2 = (if cfg_loopback (properties (heap s1) config0) = Some True
                     then call s1 (SetMulticastLoopback True)
                     else s1)
           in foldl (joinTracked e) s2 (tracked s2))
      | None \<Rightarrow> foldl (joinOnly e) s (tracked s))"

text \<open>The handlers of the socket's events: lines 75 to 97.\<close>

definition onError :: "('p, 'v, 'g) server \<Rightarrow> string \<Rightarrow> ('p, 'v, 'g) server" where
  "onError s err = emit s (EvError err)"

definition onListening :: "('p, 'v, 'g) server \<Rightarrow> ('p, 'v, 'g) server" where
  "onListening s = emit s EvListening"

definition onClose :: "('p, 'v, 'g) server \<Rightarrow> ('p, 'v, 'g) server" where
  "onClose s = emit s EvClose"

definition onMessage ::
  "('m, 'p, 'v, 'g) e131 \<Rightarrow> ('p, 'v, 'g) server \<Rightarrow> 'm \<Rightarrow> ('p, 'v, 'g) server" where
  "onMessage e s msg =
     (let packet = Packet e msg;
          validation = validate e packet
      in if validation \<noteq> ERR_NONE e then emit s (EvPacketError packet validation)
         else
           (let s1 = (if discard e packet (lastSequenceNumber s (getUniverse e packet))
                      then emit s (EvPacketOutOfOrder packet)
                      else emit s (EvPacket packet))
            in s1\<lparr>lastSequenceNumber :=
                 (lastSequenceNumber s1)(getUniverse e packet \<mapsto> getSequenceNumber e packet)\<rparr>))"

text \<open>
  The socket reports that it is bound: the callback given to \<^verbatim>\<open>bind\<close> was registered
  first, the handler of line 78 second.
\<close>

definition listening ::
  "('m, 'p, 'v, 'g) e131 \<Rightarrow> ('p, 'v, 'g) server \<Rightarrow> ('p, 'v, 'g) server" where
  "listening e s = onListening (bindCallback e s)"

subsection \<open>The methods\<close>

definition close :: "('p, 'v, 'g) server \<Rightarrow> ('p, 'v, 'g) server" where
  "close s = call s SocketClose"

text \<open>
  The array passed to \<^verbatim>\<open>addUniverses\<close> or \<^verbatim>\<open>dropUniverses\<close>: an array of the store,
  given by its address, or an array that is in no variable of the caller or the server,
  given by its elements (an array literal at the call).
\<close>

datatype arrayarg = Literal "nat list" | Stored addr

text \<open>The elements of the argument array, as they are in the given store.\<close>

definition argElems :: "store \<Rightarrow> arrayarg \<Rightarrow> nat list" where
  "argElems st arr = (case arr of Literal xs \<Rightarrow> xs | Stored a \<Rightarrow> elems st a)"

text \<open>
  \<^verbatim>\<open>Array.prototype.forEach\<close>: the length is read once, before the first call; then
  the indices are visited in order, and an index is passed to the callback only if the
  array still has it at that time, with the element that is there at that time.
  \<open>forEach f arr k n s\<close> visits the \<open>n\<close> indices from \<open>k\<close> on.
\<close>

fun forEach ::
  "(('p, 'v, 'g) server \<Rightarrow> nat \<Rightarrow> ('p, 'v, 'g) server) \<Rightarrow> arrayarg \<Rightarrow> nat \<Rightarrow> nat \<Rightarrow>
   ('p, 'v, 'g) server \<Rightarrow> ('p, 'v, 'g) server" where
  "forEach f arr k 0 s = s"
| "forEach f arr k (Suc n) s =
     forEach f arr (Suc k) n
       (let xs = argElems (heap s) arr in if k < length xs then f s (xs ! k) else s)"

text \<open>\<^verbatim>\<open>Array.prototype.indexOf\<close>: the first index of the value, or -1.\<close>

fun indexOf :: "nat list \<Rightarrow> nat \<Rightarrow> int" where
  "indexOf [] u = -1"
| "indexOf (x # xs) u =
     (if x = u then 0 else (let i = indexOf xs u in if i < 0 then -1 else i + 1))"

text \<open>
  \<^verbatim>\<open>xs.splice(start, 1)\<close>: a negative start counts from the end; one element is
  removed at the start index if there is one.
\<close>

definition splice1 :: "nat list \<Rightarrow> int \<Rightarrow> nat list" where
  "splice1 xs start =
     (let n = int (length xs);
          i = (if start < 0 then max (n + start) 0 else min start n)
      in take (nat i) xs @ drop (nat i + 1) xs)"

definition addUniverse ::
  "('m, 'p, 'v, 'g) e131 \<Rightarrow> ('p, 'v, 'g) server \<Rightarrow> nat \<Rightarrow> ('p, 'v, 'g) server" where
  "addUniverse e s universe =
     (if universe \<in> set (tracked s) then s
      else
        call (s\<lparr>heap := setElems (heap s) (universes s) (tracked s @ [universe]),
                 lastSequenceNumber := (lastSequenceNumber s)(universe \<mapsto> 0)\<rparr>)
          (AddMembership (getMulticastGroup e universe) (mcastif s)))"

definition addUniverses ::
  "('m, 'p, 'v, 'g) e131 \<Rightarrow> ('p, 'v, 'g) server \<Rightarrow> arrayarg \<Rightarrow> ('p, 'v, 'g) server" where
  "addUniverses e s universes0 =
     forEach (addUniverse e) universes0 0 (length (argElems (heap s) universes0)) s"

definition dropUniverse ::
  "('m, 'p, 'v, 'g) e131 \<Rightarrow> ('p, 'v, 'g) server \<Rightarrow> nat \<Rightarrow> ('p, 'v, 'g) server" where
  "dropUniverse e s universe =
     (if universe \<notin> set (tracked s) then s
      else
        call (s\<lparr>heap := setElems (heap s) (universes s)
                          (splice1 (tracked s) (indexOf (tracked s) universe)),
                 lastSequenceNumber := (lastSequenceNumber s)(universe := None)\<rparr>)
          (DropMembership (getMulticastGroup e universe) (mcastif s)))"

definition dropUniverses ::
  "('m, 'p, 'v, 'g) e131 \<Rightarrow> ('p, 'v, 'g) server \<Rightarrow> arrayarg \<Rightarrow> ('p, 'v, 'g) server" where
  "dropUniverses e s universes0 =
     forEach (dropUniverse e) universes0 0 (length (argElems (heap s) universes0)) s"

subsection \<open>Derived notions used by the statements\<close>

text \<open>
  The universes array is an allocated array of the store. The constructor establishes
  this when the addresses it is given are allocated, and no method changes it.
\<close>

definition valid :: "('p, 'v, 'g) server \<Rightarrow> bool" where
  "valid s = (universes s < length (arrays (heap s)))"

text \<open>
  The groups that the socket has been asked to join and not since asked to leave, read
  off the calls in order; closing the socket leaves every group.
\<close>

definition membershipStep :: "'g set \<Rightarrow> 'g sockcall \<Rightarrow> 'g set" where
  "membershipStep M c =
     (case c of
        AddMembership g _ \<Rightarrow> insert g M
      | DropMembership g _ \<Rightarrow> M - {g}
      | SocketClose \<Rightarrow> {}
      | _ \<Rightarrow> M)"

definition membership :: "'g sockcall list \<Rightarrow> 'g set" where
  "membership cs = foldl membershipStep {} cs"

definition joined :: "('m, 'p, 'v, 'g) e131 \<Rightarrow> ('p, 'v, 'g) server \<Rightarrow> nat \<Rightarrow> bool" where
  "joined e s universe = (getMulticastGroup e universe \<in> membership (socket s))"

text \<open>
  The universes of a list that \<^verbatim>\<open>addUniverses\<close> finds untracked, in the order in which
  it meets them; \<open>t\<close> is the tracked list so far.
\<close>

fun newUniverses :: "nat list \<Rightarrow> nat list \<Rightarrow> nat list" where
  "newUniverses t [] = []"
| "newUniverses t (u # us) =
     (if u \<in> set t then newUniverses t us else u # newUniverses (t @ [u]) us)"

text \<open>
  What can happen to a server after construction: the socket reports that it is bound,
  a method is called, a datagram arrives.
\<close>

datatype 'm action =
    Listening
  | AddUniverses arrayarg
  | DropUniverses arrayarg
  | Message 'm

fun step ::
  "('m, 'p, 'v, 'g) e131 \<Rightarrow> ('p, 'v, 'g) server \<Rightarrow> 'm action \<Rightarrow> ('p, 'v, 'g) server" where
  "step e s Listening = listening e s"
| "step e s (AddUniverses arr) = addUniverses e s arr"
| "step e s (DropUniverses arr) = dropUniverses e s arr"
| "step e s (Message msg) = onMessage e s msg"

definition run ::
  "('m, 'p, 'v, 'g) e131 \<Rightarrow> ('p, 'v, 'g) server \<Rightarrow> 'm action list \<Rightarrow> ('p, 'v, 'g) server" where
  "run e s acts = foldl (step e) s acts"

text \<open>
  Every datagram of the run that passes validation is for a universe that has a stored
  sequence number when the datagram arrives.
\<close>

fun knownUniversesOnly ::
  "('m, 'p, 'v, 'g) e131 \<Rightarrow> ('p, 'v, 'g) server \<Rightarrow> 'm action list \<Rightarrow> bool" where
  "knownUniversesOnly e s [] = True"
| "knownUniversesOnly e s (a # acts) =
     ((case a of
         Message msg \<Rightarrow>
           validate e (Packet e msg) \<noteq> ERR_NONE e \<or>
           lastSequenceNumber s (getUniverse e (Packet e msg)) \<noteq> None
       | _ \<Rightarrow> True) \<and>
      knownUniversesOnly e (step e s a) acts)"

subsection \<open>An instance of the module e131\<close>

text \<open>
  Modelled from the spec: \<^verbatim>\<open>lib/e131.js\<close> is not among the sources. A datagram is
  represented by what the codec reads from it: the outcome of validation (\<open>None\<close> for
  no error), the universe and the 8-bit sequence number.
\<close>

record packet =
  pkt_validation :: "string option"
  pkt_universe :: nat
  pkt_sequence :: nat

text \<open>
  Modelled from the spec: the discard predicate of the absent codec. The difference of
  the sequence numbers is read as a signed 8-bit number and a difference from -20 to 0
  is discarded (section 4.1); with no last-seen value the packet is accepted.
\<close>

definition discard_spec :: "packet \<Rightarrow> nat option \<Rightarrow> bool" where
  "discard_spec p lastSeen =
     (case lastSeen of
        None \<Rightarrow> False
      | Some s \<Rightarrow>
          (let d = (int (pkt_sequence p) - int s + 128) mod 256 - 128
           in - 20 \<le> d \<and> d \<le> 0))"

text \<open>
  Modelled from the spec: the multicast group of a universe, absent from the sources, is
  239.255.hi.lo with hi and lo the big-endian bytes of the universe number (section 6);
  for a 16-bit universe number these are the quotient and the remainder by 256.
\<close>

definition multicastGroup_spec :: "nat \<Rightarrow> nat \<times> nat \<times> nat \<times> nat" where
  "multicastGroup_spec universe = (239, 255, universe div 256, universe mod 256)"

text \<open>
  Modelled from the spec: the module with the codec above. The spec does not give the
  number of the default port, which is the parameter here.
\<close>

definition e131_spec ::
  "nat \<Rightarrow> (packet, packet, string option, nat \<times> nat \<times> nat \<times> nat) e131" where
  "e131_spec defaultPort =
     \<lparr>Packet = (\<lambda>msg. msg), validate = pkt_validation, ERR_NONE = None,
      getUniverse = pkt_universe, getSequenceNumber = pkt_sequence,
      discard = discard_spec, getMulticastGroup = multicastGroup_spec,
      DEFAULT_PORT = defaultPort\<rparr>"

definition datagram :: "nat \<Rightarrow> nat \<Rightarrow> packet" where
  "datagram universe sequence =
     \<lparr>pkt_validation = None, pkt_universe = universe, pkt_sequence = sequence\<rparr>"

subsection \<open>Notions used in the proofs\<close>

text \<open>
  The callback applied to the elements of a list in order. This is what \<open>forEach\<close> does
  when the callbacks leave the argument array as it is.
\<close>

definition addEach ::
  "('m, 'p, 'v, 'g) e131 \<Rightarrow> ('p, 'v, 'g) server \<Rightarrow> nat list \<Rightarrow> ('p, 'v, 'g) server" where
  "addEach e s us = foldl (addUniverse e) s us"

definition dropEach ::
  "('m, 'p, 'v, 'g) e131 \<Rightarrow> ('p, 'v, 'g) server \<Rightarrow> nat list \<Rightarrow> ('p, 'v, 'g) server" where
  "dropEach e s us = foldl (dropUniverse e) s us"

text \<open>
  What \<^verbatim>\<open>dropUniverses\<close> leaves of the tracked list \<open>xs\<close> when its argument is that
  very array: at each of the \<open>n\<close> indices from \<open>k\<close> on that the list still has, the first
  occurrence of the element found there is removed.
\<close>

fun dropLive :: "nat list \<Rightarrow> nat \<Rightarrow> nat \<Rightarrow> nat list" where
  "dropLive xs k 0 = xs"
| "dropLive xs k (Suc n) =
     dropLive (if k < length xs then remove1 (xs ! k) xs else xs) (Suc k) n"

text \<open>
  The calls that the bind callback makes before it joins the groups: lines 46 to 50 (none
  in the positional form).
\<close>

definition bindOptions :: "('p, 'v, 'g) server \<Rightarrow> 'g sockcall list" where
  "bindOptions s =
     (case config s of
        None \<Rightarrow> []
      | Some c \<Rightarrow>
          (case mcastif s of Some i \<Rightarrow> [SetMulticastInterface i] | None \<Rightarrow> []) @
          (if cfg_loopback (properties (heap s) c) = Some True
           then [SetMulticastLoopback True] else []))"

text \<open>
  The universes whose group is joined are exactly those with a last-seen sequence
  number.
\<close>

definition synchronized :: "('m, 'p, 'v, 'g) e131 \<Rightarrow> ('p, 'v, 'g) server \<Rightarrow> bool" where
  "synchronized e s = (\<forall>u. joined e s u = (lastSequenceNumber s u \<noteq> None))"

subsection \<open>Concrete servers\<close>

definition module5568 :: "(packet, packet, string option, nat \<times> nat \<times> nat \<times> nat) e131" where
  "module5568 = e131_spec 5568"

text \<open>The caller's store for \<^verbatim>\<open>new Server({universes: [1]})\<close>.\<close>

definition storeUniverse1 :: store where
  "storeUniverse1 = \<lparr>arrays = [[1]], objects = [empty_config\<lparr>cfg_universes := CArray 0\<rparr>]\<rparr>"

text \<open>That server once its socket is bound.\<close>

definition serverUniverse1 :: "(packet, string option, nat \<times> nat \<times> nat \<times> nat) server" where
  "serverUniverse1 = listening module5568 (Server module5568 storeUniverse1 (ConfigRef 0) None)"

text \<open>\<^verbatim>\<open>new Server()\<close>, before its socket is bound.\<close>

definition serverEmpty :: "(packet, string option, nat \<times> nat \<times> nat \<times> nat) server" where
  "serverEmpty = Server module5568 empty_store Undefined None"

text \<open>A datagram that fails validation.\<close>

definition malformed :: packet where
  "malformed = \<lparr>pkt_validation = Some ''root layer'', pkt_universe = 1, pkt_sequence = 200\<rparr>"

text \<open>
  \<^verbatim>\<open>new Server({universes: [5, 5]})\<close>, a configuration whose list names a universe twice,
  once its socket is bound.
\<close>

definition storeTwice5 :: store where
  "storeTwice5 = \<lparr>arrays = [[5, 5]], objects = [empty_config\<lparr>cfg_universes := CArray 0\<rparr>]\<rparr>"

definition serverTwice5 :: "(packet, string option, nat \<times> nat \<times> nat \<times> nat) server" where
  "serverTwice5 = listening module5568 (Server module5568 storeTwice5 (ConfigRef 0) None)"

text \<open>
  A caller's store with the arrays \<^verbatim>\<open>[1, 2]\<close> and \<^verbatim>\<open>[9]\<close> and the configuration objects
  \<^verbatim>\<open>{universes: 3}\<close>, \<^verbatim>\<open>{}\<close> and \<^verbatim>\<open>{universes: [1, 2], port: 6000}\<close>, the last
  one holding the first array.
\<close>

definition storeThree :: store where
  "storeThree =
     \<lparr>arrays = [[1, 2], [9]],
      objects = [empty_config\<lparr>cfg_universes := CNumber 3\<rparr>,
                 empty_config,
                 empty_config\<lparr>cfg_universes := CArray 0, cfg_port := Some 6000\<rparr>]\<rparr>"

text \<open>
  \<^verbatim>\<open>new Server()\<close> after its socket was bound, \<^verbatim>\<open>close()\<close> was called and the socket
  reported that it is closed.
\<close>

definition serverClosed :: "(packet, string option, nat \<times> nat \<times> nat \<times> nat) server" where
  "serverClosed = onClose (close (listening module5568 serverEmpty))"

section \<open>Properties\<close>

subsection \<open>Field access, arrays and the two methods\<close>

lemma call_simps:
  "heap (call s c) = heap s" "universes (call s c) = universes s" "port (call s c) = port s"
  "mcastif (call s c) = mcastif s" "config (call s c) = config s"
  "lastSequenceNumber (call s c) = lastSequenceNumber s"
  "socket (call s c) = socket s @ [c]" "emitted (call s c) = emitted s"
  "tracked (call s c) = tracked s" "valid (call s c) = valid s"
  by (simp_all add: call_def tracked_def valid_def)

lemma emit_simps:
  "heap (emit s ev) = heap s" "universes (emit s ev) = universes s" "port (emit s ev) = port s"
  "mcastif (emit s ev) = mcastif s" "config (emit s ev) = config s"
  "lastSequenceNumber (emit s ev) = lastSequenceNumber s"
  "socket (emit s ev) = socket s" "emitted (emit s ev) = emitted s @ [ev]"
  "tracked (emit s ev) = tracked s" "valid (emit s ev) = valid s"
  by (simp_all add: emit_def tracked_def valid_def)

lemma elems_setElems:
  "a < length (arrays st) \<Longrightarrow> elems (setElems st a xs) a = xs"
  by (simp add: elems_def setElems_def)

lemma indexOf_range: "- 1 \<le> indexOf xs u \<and> indexOf xs u < int (length xs)"
  by (induction xs) (auto simp: Let_def)

lemma indexOf_mem: "u \<in> set xs \<Longrightarrow> 0 \<le> indexOf xs u"
  by (induction xs) (auto simp: Let_def)

lemma splice1_Cons_Suc: "0 \<le> i \<Longrightarrow> splice1 (x # xs) (i + 1) = x # splice1 xs i"
  by (auto simp: splice1_def Let_def nat_add_distrib min_def)

lemma splice1_indexOf: "u \<in> set xs \<Longrightarrow> splice1 xs (indexOf xs u) = remove1 u xs"
proof (induction xs)
  case Nil
  then show ?case by simp
next
  case (Cons x xs)
  show ?case
  proof (cases "x = u")
    case True
    then show ?thesis by (simp add: splice1_def)
  next
    case False
    with Cons.prems have mem: "u \<in> set xs" by simp
    then have "0 \<le> indexOf xs u" by (rule indexOf_mem)
    with False mem Cons.IH show ?thesis
      by (simp add: Let_def splice1_Cons_Suc)
  qed
qed

lemma addUniverse_simps:
  "universes (addUniverse e s u) = universes s"
  "mcastif (addUniverse e s u) = mcastif s"
  "config (addUniverse e s u) = config s"
  "port (addUniverse e s u) = port s"
  "emitted (addUniverse e s u) = emitted s"
  "valid (addUniverse e s u) = valid s"
  "objects (heap (addUniverse e s u)) = objects (heap s)"
  "length (arrays (heap (addUniverse e s u))) = length (arrays (heap s))"
  by (simp_all add: addUniverse_def call_simps valid_def setElems_def)

lemma addUniverse_tracked:
  "valid s \<Longrightarrow> tracked (addUniverse e s u) =
     (if u \<in> set (tracked s) then tracked s else tracked s @ [u])"
  by (simp add: addUniverse_def call_simps) (simp add: tracked_def valid_def elems_setElems)

lemma addUniverse_lastSequenceNumber:
  "lastSequenceNumber (addUniverse e s u) =
     (if u \<in> set (tracked s) then lastSequenceNumber s else (lastSequenceNumber s)(u \<mapsto> 0))"
  by (simp add: addUniverse_def call_simps)

lemma addUniverse_socket:
  "socket (addUniverse e s u) =
     (if u \<in> set (tracked s) then socket s
      else socket s @ [AddMembership (getMulticastGroup e u) (mcastif s)])"
  by (simp add: addUniverse_def call_simps)

lemma addEach_Nil: "addEach e s [] = s"
  by (simp add: addEach_def)

lemma addEach_Cons: "addEach e s (u # us) = addEach e (addUniverse e s u) us"
  by (simp add: addEach_def)

lemma addEach_simps:
  "universes (addEach e s us) = universes s"
  "mcastif (addEach e s us) = mcastif s"
  "config (addEach e s us) = config s"
  "port (addEach e s us) = port s"
  "emitted (addEach e s us) = emitted s"
  "valid (addEach e s us) = valid s"
  "objects (heap (addEach e s us)) = objects (heap s)"
  "length (arrays (heap (addEach e s us))) = length (arrays (heap s))"
  by (induction us arbitrary: s; simp add: addEach_Nil addEach_Cons addUniverse_simps)+

lemma addEach_tracked:
  "valid s \<Longrightarrow> tracked (addEach e s us) = tracked s @ newUniverses (tracked s) us"
  by (induction us arbitrary: s)
     (simp_all add: addEach_Nil addEach_Cons addUniverse_simps addUniverse_tracked)

lemma addEach_socket:
  "valid s \<Longrightarrow> socket (addEach e s us) =
     socket s @ map (\<lambda>u. AddMembership (getMulticastGroup e u) (mcastif s))
       (newUniverses (tracked s) us)"
  by (induction us arbitrary: s)
     (simp_all add: addEach_Nil addEach_Cons addUniverse_simps addUniverse_tracked
        addUniverse_socket)

lemma set_newUniverses: "set (newUniverses t us) = set us - set t"
  by (induction t us rule: newUniverses.induct) auto

lemma distinct_newUniverses: "distinct (newUniverses t us)"
  by (induction t us rule: newUniverses.induct) (auto simp: set_newUniverses)

lemma addEach_lastSequenceNumber:
  "valid s \<Longrightarrow> lastSequenceNumber (addEach e s us) u =
     (if u \<in> set (newUniverses (tracked s) us) then Some 0 else lastSequenceNumber s u)"
  by (induction us arbitrary: s)
     (auto simp: addEach_Nil addEach_Cons addUniverse_simps addUniverse_tracked
        addUniverse_lastSequenceNumber set_newUniverses)

lemma dropUniverse_simps:
  "universes (dropUniverse e s u) = universes s"
  "mcastif (dropUniverse e s u) = mcastif s"
  "config (dropUniverse e s u) = config s"
  "port (dropUniverse e s u) = port s"
  "emitted (dropUniverse e s u) = emitted s"
  "valid (dropUniverse e s u) = valid s"
  "objects (heap (dropUniverse e s u)) = objects (heap s)"
  "length (arrays (heap (dropUniverse e s u))) = length (arrays (heap s))"
  by (simp_all add: dropUniverse_def call_simps valid_def setElems_def)

lemma dropUniverse_tracked:
  "valid s \<Longrightarrow> tracked (dropUniverse e s u) = remove1 u (tracked s)"
proof (cases "u \<in> set (tracked s)")
  case True
  assume "valid s"
  with True show ?thesis
    by (simp add: dropUniverse_def call_simps splice1_indexOf)
       (simp add: tracked_def valid_def elems_setElems)
next
  case False
  then show ?thesis by (simp add: dropUniverse_def remove1_idem)
qed



lemma dropEach_Nil: "dropEach e s [] = s"
  by (simp add: dropEach_def)

lemma dropEach_Cons: "dropEach e s (u # us) = dropEach e (dropUniverse e s u) us"
  by (simp add: dropEach_def)

lemma dropEach_simps:
  "universes (dropEach e s us) = universes s"
  "mcastif (dropEach e s us) = mcastif s"
  "config (dropEach e s us) = config s"
  "port (dropEach e s us) = port s"
  "emitted (dropEach e s us) = emitted s"
  "valid (dropEach e s us) = valid s"
  "objects (heap (dropEach e s us)) = objects (heap s)"
  "length (arrays (heap (dropEach e s us))) = length (arrays (heap s))"
  by (induction us arbitrary: s; simp add: dropEach_Nil dropEach_Cons dropUniverse_simps)+

lemma dropEach_tracked:
  "valid s \<Longrightarrow> tracked (dropEach e s us) = foldl (\<lambda>t u. remove1 u t) (tracked s) us"
  by (induction us arbitrary: s)
     (simp_all add: dropEach_Nil dropEach_Cons dropUniverse_simps dropUniverse_tracked)

lemma membership_snoc: "membership (cs @ [c]) = membershipStep (membership cs) c"
  by (simp add: membership_def)

lemma membership_adds:
  "membership (cs @ map (\<lambda>u. AddMembership (f u) i) us) = membership cs \<union> f ` set us"
proof (induction us rule: rev_induct)
  case Nil
  then show ?case by simp
next
  case (snoc u us)
  have "membership (cs @ map (\<lambda>u. AddMembership (f u) i) (us @ [u])) =
        membershipStep (membership (cs @ map (\<lambda>u. AddMembership (f u) i) us)) (AddMembership (f u) i)"
    using membership_snoc [of "cs @ map (\<lambda>u. AddMembership (f u) i) us"] by simp
  with snoc show ?case by (auto simp: membershipStep_def)
qed

lemma joinTracked_simps:
  "heap (joinTracked e s u) = heap s" "universes (joinTracked e s u) = universes s"
  "mcastif (joinTracked e s u) = mcastif s" "config (joinTracked e s u) = config s"
  "port (joinTracked e s u) = port s" "emitted (joinTracked e s u) = emitted s"
  "lastSequenceNumber (joinTracked e s u) = (lastSequenceNumber s)(u \<mapsto> 0)"
  "socket (joinTracked e s u) = socket s @ [AddMembership (getMulticastGroup e u) (mcastif s)]"
  by (simp_all add: joinTracked_def call_simps)

lemma joinOnly_simps:
  "heap (joinOnly e s u) = heap s" "universes (joinOnly e s u) = universes s"
  "mcastif (joinOnly e s u) = mcastif s" "config (joinOnly e s u) = config s"
  "port (joinOnly e s u) = port s" "emitted (joinOnly e s u) = emitted s"
  "lastSequenceNumber (joinOnly e s u) = lastSequenceNumber s"
  "socket (joinOnly e s u) = socket s @ [AddMembership (getMulticastGroup e u) None]"
  by (simp_all add: joinOnly_def call_simps)

lemma foldl_joinTracked_simps:
  "heap (foldl (joinTracked e) s us) = heap s"
  "universes (foldl (joinTracked e) s us) = universes s"
  "mcastif (foldl (joinTracked e) s us) = mcastif s"
  "config (foldl (joinTracked e) s us) = config s"
  "port (foldl (joinTracked e) s us) = port s"
  "emitted (foldl (joinTracked e) s us) = emitted s"
  by (induction us arbitrary: s; simp add: joinTracked_simps)+

lemma foldl_joinTracked_socket:
  "socket (foldl (joinTracked e) s us) =
     socket s @ map (\<lambda>u. AddMembership (getMulticastGroup e u) (mcastif s)) us"
  by (induction us arbitrary: s) (simp_all add: joinTracked_simps)

lemma foldl_joinTracked_lastSequenceNumber:
  "lastSequenceNumber (foldl (joinTracked e) s us) u =
     (if u \<in> set us then Some 0 else lastSequenceNumber s u)"
  by (induction us arbitrary: s) (auto simp: joinTracked_simps)

lemma foldl_joinOnly_simps:
  "heap (foldl (joinOnly e) s us) = heap s"
  "universes (foldl (joinOnly e) s us) = universes s"
  "mcastif (foldl (joinOnly e) s us) = mcastif s"
  "config (foldl (joinOnly e) s us) = config s"
  "port (foldl (joinOnly e) s us) = port s"
  "emitted (foldl (joinOnly e) s us) = emitted s"
  "lastSequenceNumber (foldl (joinOnly e) s us) = lastSequenceNumber s"
  by (induction us arbitrary: s; simp add: joinOnly_simps)+

lemma foldl_joinOnly_socket:
  "socket (foldl (joinOnly e) s us) =
     socket s @ map (\<lambda>u. AddMembership (getMulticastGroup e u) None) us"
  by (induction us arbitrary: s) (simp_all add: joinOnly_simps)

lemma bindCallback_simps:
  "heap (bindCallback e s) = heap s"
  "universes (bindCallback e s) = universes s"
  "mcastif (bindCallback e s) = mcastif s"
  "config (bindCallback e s) = config s"
  "port (bindCallback e s) = port s"
  "emitted (bindCallback e s) = emitted s"
  by (simp_all add: bindCallback_def Let_def foldl_joinTracked_simps foldl_joinOnly_simps
        call_simps split: option.splits)

lemma bindCallback_tracked: "tracked (bindCallback e s) = tracked s"
  by (simp add: tracked_def bindCallback_simps)

lemma bindCallback_socket:
  "socket (bindCallback e s) =
     socket s @ bindOptions s @
     map (\<lambda>u. AddMembership (getMulticastGroup e u) (if config s = None then None else mcastif s))
       (tracked s)"
  by (simp add: bindCallback_def bindOptions_def Let_def foldl_joinTracked_socket
        foldl_joinOnly_socket call_simps split: option.splits)

lemma bindCallback_lastSequenceNumber:
  "lastSequenceNumber (bindCallback e s) u =
     (if config s \<noteq> None \<and> u \<in> set (tracked s) then Some 0 else lastSequenceNumber s u)"
  by (simp add: bindCallback_def Let_def foldl_joinTracked_lastSequenceNumber
        foldl_joinOnly_simps call_simps split: option.splits)


subsection \<open>forEach over the argument array\<close>

lemma elems_setElems_other: "a \<noteq> r \<Longrightarrow> elems (setElems st r xs) a = elems st a"
  by (simp add: elems_def setElems_def)

lemma argElems_addUniverse:
  "arr \<noteq> Stored (universes s) \<Longrightarrow>
   argElems (heap (addUniverse e s u)) arr = argElems (heap s) arr"
  by (cases arr) (simp_all add: addUniverse_def call_simps argElems_def elems_setElems_other)

lemma argElems_dropUniverse:
  "arr \<noteq> Stored (universes s) \<Longrightarrow>
   argElems (heap (dropUniverse e s u)) arr = argElems (heap s) arr"
  by (cases arr) (simp_all add: dropUniverse_def call_simps argElems_def elems_setElems_other)

lemma forEach_invariant:
  assumes "\<And>s u. Q s \<Longrightarrow> Q (f s u)" and "Q s"
  shows "Q (forEach f arr k n s)"
  using assms(2)
proof (induction n arbitrary: k s)
  case 0
  then show ?case by simp
next
  case (Suc n)
  then show ?case by (simp add: Let_def assms(1))
qed

text \<open>
  While the callbacks leave the argument array as it is, \<open>forEach\<close> is the fold over
  its elements.
\<close>

lemma forEach_stable:
  assumes stable: "\<And>s u. P s \<Longrightarrow>
                     P (f s u) \<and> argElems (heap (f s u)) arr = argElems (heap s) arr"
    and "P s"
  shows "forEach f arr k n s = foldl f s (take n (drop k (argElems (heap s) arr)))"
  using assms(2)
proof (induction n arbitrary: k s)
  case 0
  then show ?case by simp
next
  case (Suc n)
  let ?xs = "argElems (heap s) arr"
  show ?case
  proof (cases "k < length ?xs")
    case True
    let ?s = "f s (?xs ! k)"
    have P: "P ?s" and same: "argElems (heap ?s) arr = ?xs"
      using stable [OF Suc.prems] by simp_all
    have "forEach f arr k (Suc n) s = forEach f arr (Suc k) n ?s"
      using True by (simp add: Let_def)
    also have "\<dots> = foldl f ?s (take n (drop (Suc k) ?xs))"
      using Suc.IH [OF P] by (simp add: same)
    also have "\<dots> = foldl f s (take (Suc n) (drop k ?xs))"
      using True by (simp add: Cons_nth_drop_Suc [symmetric])
    finally show ?thesis .
  next
    case False
    then have "forEach f arr k (Suc n) s = forEach f arr (Suc k) n s"
      by (simp add: Let_def)
    also have "\<dots> = foldl f s (take n (drop (Suc k) ?xs))"
      using Suc.IH [OF Suc.prems] .
    finally show ?thesis
      using False by simp
  qed
qed

text \<open>When the callback changes nothing at any element, neither does \<open>forEach\<close>.\<close>

lemma forEach_fixed:
  assumes "\<And>u. u \<in> set (argElems (heap s) arr) \<Longrightarrow> f s u = s"
  shows "forEach f arr k n s = s"
proof (induction n arbitrary: k)
  case 0
  then show ?case by simp
next
  case (Suc n)
  then show ?case by (simp add: Let_def assms)
qed

lemma addUniverses_addEach:
  assumes "arr \<noteq> Stored (universes s)"
  shows "addUniverses e s arr = addEach e s (argElems (heap s) arr)"
  using forEach_stable [where P = "\<lambda>s'. arr \<noteq> Stored (universes s')" and f = "addUniverse e"
          and arr = arr and s = s and k = 0 and n = "length (argElems (heap s) arr)"] assms
  by (simp add: addUniverses_def addEach_def addUniverse_simps argElems_addUniverse)

lemma dropUniverses_dropEach:
  assumes "arr \<noteq> Stored (universes s)"
  shows "dropUniverses e s arr = dropEach e s (argElems (heap s) arr)"
  using forEach_stable [where P = "\<lambda>s'. arr \<noteq> Stored (universes s')" and f = "dropUniverse e"
          and arr = arr and s = s and k = 0 and n = "length (argElems (heap s) arr)"] assms
  by (simp add: dropUniverses_def dropEach_def dropUniverse_simps argElems_dropUniverse)

lemma addUniverses_Literal: "addUniverses e s (Literal us) = addEach e s us"
  using addUniverses_addEach [of "Literal us" s e] by (simp add: argElems_def)

lemma dropUniverses_Literal: "dropUniverses e s (Literal us) = dropEach e s us"
  using dropUniverses_dropEach [of "Literal us" s e] by (simp add: argElems_def)

lemma addUniverses_Stored:
  "a \<noteq> universes s \<Longrightarrow> addUniverses e s (Stored a) = addEach e s (elems (heap s) a)"
  using addUniverses_addEach [of "Stored a" s e] by (simp add: argElems_def)

lemma dropUniverses_Stored:
  "a \<noteq> universes s \<Longrightarrow> dropUniverses e s (Stored a) = dropEach e s (elems (heap s) a)"
  using dropUniverses_dropEach [of "Stored a" s e] by (simp add: argElems_def)

lemma addUniverses_of_tracked: "addUniverses e s (Stored (universes s)) = s"
  unfolding addUniverses_def
  by (rule forEach_fixed) (simp add: argElems_def tracked_def [symmetric] addUniverse_def)




lemma addUniverses_simps:
  "universes (addUniverses e s arr) = universes s"
  "mcastif (addUniverses e s arr) = mcastif s"
  "config (addUniverses e s arr) = config s"
  "port (addUniverses e s arr) = port s"
  "emitted (addUniverses e s arr) = emitted s"
  "valid (addUniverses e s arr) = valid s"
  "objects (heap (addUniverses e s arr)) = objects (heap s)"
  "length (arrays (heap (addUniverses e s arr))) = length (arrays (heap s))"
proof -
  have "(\<lambda>s'. universes s' = universes s \<and> mcastif s' = mcastif s \<and> config s' = config s \<and>
           port s' = port s \<and> emitted s' = emitted s \<and> valid s' = valid s \<and>
           objects (heap s') = objects (heap s) \<and>
           length (arrays (heap s')) = length (arrays (heap s)))
        (addUniverses e s arr)"
    unfolding addUniverses_def
    by (rule forEach_invariant
          [where Q = "\<lambda>s'. universes s' = universes s \<and> mcastif s' = mcastif s \<and>
             config s' = config s \<and> port s' = port s \<and> emitted s' = emitted s \<and>
             valid s' = valid s \<and> objects (heap s') = objects (heap s) \<and>
             length (arrays (heap s')) = length (arrays (heap s))"])
       (simp_all add: addUniverse_simps)
  then show
    "universes (addUniverses e s arr) = universes s"
    "mcastif (addUniverses e s arr) = mcastif s"
    "config (addUniverses e s arr) = config s"
    "port (addUniverses e s arr) = port s"
    "emitted (addUniverses e s arr) = emitted s"
    "valid (addUniverses e s arr) = valid s"
    "objects (heap (addUniverses e s arr)) = objects (heap s)"
    "length (arrays (heap (addUniverses e s arr))) = length (arrays (heap s))"
    by simp_all
qed

lemma dropUniverses_simps:
  "universes (dropUniverses e s arr) = universes s"
  "mcastif (dropUniverses e s arr) = mcastif s"
  "config (dropUniverses e s arr) = config s"
  "port (dropUniverses e s arr) = port s"
  "emitted (dropUniverses e s arr) = emitted s"
  "valid (dropUniverses e s arr) = valid s"
  "objects (heap (dropUniverses e s arr)) = objects (heap s)"
  "length (arrays (heap (dropUniverses e s arr))) = length (arrays (heap s))"
proof -
  have "(\<lambda>s'. universes s' = universes s \<and> mcastif s' = mcastif s \<and> config s' = config s \<and>
           port s' = port s \<and> emitted s' = emitted s \<and> valid s' = valid s \<and>
           objects (heap s') = objects (heap s) \<and>
           length (arrays (heap s')) = length (arrays (heap s)))
        (dropUniverses e s arr)"
    unfolding dropUniverses_def
    by (rule forEach_invariant
          [where Q = "\<lambda>s'. universes s' = universes s \<and> mcastif s' = mcastif s \<and>
             config s' = config s \<and> port s' = port s \<and> emitted s' = emitted s \<and>
             valid s' = valid s \<and> objects (heap s') = objects (heap s) \<and>
             length (arrays (heap s')) = length (arrays (heap s))"])
       (simp_all add: dropUniverse_simps)
  then show
    "universes (dropUniverses e s arr) = universes s"
    "mcastif (dropUniverses e s arr) = mcastif s"
    "config (dropUniverses e s arr) = config s"
    "port (dropUniverses e s arr) = port s"
    "emitted (dropUniverses e s arr) = emitted s"
    "valid (dropUniverses e s arr) = valid s"
    "objects (heap (dropUniverses e s arr)) = objects (heap s)"
    "length (arrays (heap (dropUniverses e s arr))) = length (arrays (heap s))"
    by simp_all
qed

text \<open>
  Both methods write to the store only at the address of \<^verbatim>\<open>this.universes\<close>.
\<close>

lemma addUniverse_other_arrays:
  "a \<noteq> universes s \<Longrightarrow> elems (heap (addUniverse e s u)) a = elems (heap s) a"
  by (simp add: addUniverse_def call_simps elems_setElems_other)

lemma dropUniverse_other_arrays:
  "a \<noteq> universes s \<Longrightarrow> elems (heap (dropUniverse e s u)) a = elems (heap s) a"
  by (simp add: dropUniverse_def call_simps elems_setElems_other)

lemma addUniverses_other_arrays:
  assumes "a \<noteq> universes s"
  shows "elems (heap (addUniverses e s arr)) a = elems (heap s) a"
proof -
  have "(\<lambda>s'. universes s' = universes s \<and> elems (heap s') a = elems (heap s) a)
          (addUniverses e s arr)"
    unfolding addUniverses_def
    by (rule forEach_invariant
          [where Q = "\<lambda>s'. universes s' = universes s \<and>
             elems (heap s') a = elems (heap s) a"])
       (simp_all add: addUniverse_simps addUniverse_other_arrays assms)
  then show ?thesis by simp
qed

lemma dropUniverses_other_arrays:
  assumes "a \<noteq> universes s"
  shows "elems (heap (dropUniverses e s arr)) a = elems (heap s) a"
proof -
  have "(\<lambda>s'. universes s' = universes s \<and> elems (heap s') a = elems (heap s) a)
          (dropUniverses e s arr)"
    unfolding dropUniverses_def
    by (rule forEach_invariant
          [where Q = "\<lambda>s'. universes s' = universes s \<and>
             elems (heap s') a = elems (heap s) a"])
       (simp_all add: dropUniverse_simps dropUniverse_other_arrays assms)
  then show ?thesis by simp
qed

text \<open>
  \<^verbatim>\<open>dropUniverses\<close> called with the array \<^verbatim>\<open>this.universes\<close> itself walks the list
  that it is shrinking.
\<close>

lemma forEach_dropUniverse_live:
  "valid s \<Longrightarrow>
   tracked (forEach (dropUniverse e) (Stored (universes s)) k n s) = dropLive (tracked s) k n"
proof (induction n arbitrary: k s)
  case 0
  then show ?case by simp
next
  case (Suc n)
  let ?s = "dropUniverse e s (tracked s ! k)"
  have a: "argElems (heap s) (Stored (universes s)) = tracked s"
    by (simp add: argElems_def tracked_def)
  show ?case
  proof (cases "k < length (tracked s)")
    case True
    have "tracked (forEach (dropUniverse e) (Stored (universes ?s)) (Suc k) n ?s) =
          dropLive (tracked ?s) (Suc k) n"
      using Suc.prems by (intro Suc.IH) (simp add: dropUniverse_simps)
    then show ?thesis
      using True Suc.prems by (simp add: a Let_def dropUniverse_simps dropUniverse_tracked)
  next
    case False
    then show ?thesis
      using Suc.IH [OF Suc.prems] by (simp add: a Let_def)
  qed
qed

lemma dropUniverses_of_tracked:
  "valid s \<Longrightarrow>
   tracked (dropUniverses e s (Stored (universes s))) =
     dropLive (tracked s) 0 (length (tracked s))"
  by (simp add: dropUniverses_def forEach_dropUniverse_live)
     (simp add: argElems_def tracked_def)

subsection \<open>Membership and sequence state\<close>

lemma synchronized_emit: "synchronized e (emit s ev) = synchronized e s"
  by (simp add: synchronized_def joined_def emit_simps)

lemma synchronized_call_other:
  "membershipStep (membership (socket s)) c = membership (socket s) \<Longrightarrow>
   synchronized e (call s c) = synchronized e s"
  by (simp add: synchronized_def joined_def call_simps membership_snoc)

lemma synchronized_join:
  assumes "inj (getMulticastGroup e)" and "synchronized e s"
  shows "synchronized e
           (call (s\<lparr>lastSequenceNumber := (lastSequenceNumber s)(u \<mapsto> n)\<rparr>)
              (AddMembership (getMulticastGroup e u) i))"
  using assms
  by (auto simp: synchronized_def joined_def call_simps membership_snoc membershipStep_def
        call_def dest: injD)

lemma synchronized_leave:
  assumes "inj (getMulticastGroup e)" and "synchronized e s"
  shows "synchronized e
           (call (s\<lparr>heap := h, lastSequenceNumber := (lastSequenceNumber s)(u := None)\<rparr>)
              (DropMembership (getMulticastGroup e u) i))"
  using assms
  by (auto simp: synchronized_def joined_def call_simps membership_snoc membershipStep_def
        call_def dest: injD)

lemma synchronized_heap: "synchronized e (s\<lparr>heap := h\<rparr>) = synchronized e s"
  by (simp add: synchronized_def joined_def)

lemma synchronized_addUniverse:
  assumes "inj (getMulticastGroup e)" and "synchronized e s"
  shows "synchronized e (addUniverse e s u)"
proof (cases "u \<in> set (tracked s)")
  case True
  with assms show ?thesis by (simp add: addUniverse_def)
next
  case False
  have "synchronized e (s\<lparr>heap := setElems (heap s) (universes s) (tracked s @ [u])\<rparr>)"
    using assms by (simp add: synchronized_heap)
  from synchronized_join [OF assms(1) this, of u 0 "mcastif s"] False
  show ?thesis by (simp add: addUniverse_def)
qed

lemma synchronized_dropUniverse:
  assumes "inj (getMulticastGroup e)" and "synchronized e s"
  shows "synchronized e (dropUniverse e s u)"
  using assms synchronized_leave [OF assms, where u = u and i = "mcastif s"]
  by (simp add: dropUniverse_def)

lemma synchronized_addUniverses:
  assumes "inj (getMulticastGroup e)" and "synchronized e s"
  shows "synchronized e (addUniverses e s arr)"
  unfolding addUniverses_def
  by (rule forEach_invariant [where Q = "synchronized e"])
     (simp_all add: assms synchronized_addUniverse)

lemma synchronized_dropUniverses:
  assumes "inj (getMulticastGroup e)" and "synchronized e s"
  shows "synchronized e (dropUniverses e s arr)"
  unfolding dropUniverses_def
  by (rule forEach_invariant [where Q = "synchronized e"])
     (simp_all add: assms synchronized_dropUniverse)

lemma synchronized_joinTracked:
  "inj (getMulticastGroup e) \<Longrightarrow> synchronized e s \<Longrightarrow> synchronized e (joinTracked e s u)"
  using synchronized_join [of e s u 0 "mcastif s"] by (simp add: joinTracked_def)

lemma synchronized_foldl_joinTracked:
  "inj (getMulticastGroup e) \<Longrightarrow> synchronized e s \<Longrightarrow>
   synchronized e (foldl (joinTracked e) s us)"
  by (induction us arbitrary: s) (simp_all add: synchronized_joinTracked)

lemma synchronized_bindCallback:
  assumes "inj (getMulticastGroup e)" and "config s \<noteq> None" and "synchronized e s"
  shows "synchronized e (bindCallback e s)"
  using assms
  by (auto simp: bindCallback_def Let_def synchronized_foldl_joinTracked
        synchronized_call_other membershipStep_def split: option.splits)

lemma synchronized_listening:
  "inj (getMulticastGroup e) \<Longrightarrow> config s \<noteq> None \<Longrightarrow> synchronized e s \<Longrightarrow>
   synchronized e (listening e s)"
  by (simp add: listening_def onListening_def synchronized_emit synchronized_bindCallback)

lemma synchronized_onMessage:
  assumes "validate e (Packet e msg) \<noteq> ERR_NONE e \<or>
           lastSequenceNumber s (getUniverse e (Packet e msg)) \<noteq> None"
    and "synchronized e s"
  shows "synchronized e (onMessage e s msg)"
  using assms
  by (auto simp: onMessage_def Let_def synchronized_def joined_def emit_simps)

lemma config_step: "config (step e s a) = config s"
  by (cases a)
     (simp_all add: listening_def onListening_def emit_simps bindCallback_simps
        addUniverses_simps dropUniverses_simps onMessage_def Let_def)

lemma run_Nil: "run e s [] = s"
  by (simp add: run_def)

lemma run_Cons: "run e s (a # acts) = run e (step e s a) acts"
  by (simp add: run_def)

lemma synchronized_run:
  assumes "inj (getMulticastGroup e)"
  shows "config s \<noteq> None \<Longrightarrow> synchronized e s \<Longrightarrow> knownUniversesOnly e s acts \<Longrightarrow>
         synchronized e (run e s acts)"
proof (induction acts arbitrary: s)
  case Nil
  then show ?case by (simp add: run_Nil)
next
  case (Cons a acts)
  have "synchronized e (step e s a)"
  proof (cases a)
    case Listening
    with Cons.prems assms show ?thesis by (simp add: synchronized_listening)
  next
    case (AddUniverses us)
    with Cons.prems assms show ?thesis by (simp add: synchronized_addUniverses)
  next
    case (DropUniverses us)
    with Cons.prems assms show ?thesis by (simp add: synchronized_dropUniverses)
  next
    case (Message msg)
    with Cons.prems show ?thesis by (simp add: synchronized_onMessage)
  qed
  moreover have "config (step e s a) \<noteq> None"
    using Cons.prems by (simp add: config_step)
  moreover have "knownUniversesOnly e (step e s a) acts"
    using Cons.prems by simp
  ultimately show ?case
    by (simp add: run_Cons Cons.IH)
qed

lemma Server_configuration_form:
  assumes "instanceofObject a \<or> a = Undefined"
  shows "config (Server e st a p) \<noteq> None"
    and "lastSequenceNumber (Server e st a p) = Map.empty"
    and "membership (socket (Server e st a p)) = {}"
    and "emitted (Server e st a p) = []"
  using assms
  by (auto simp: Server_def Let_def membership_def membershipStep_def split: prod.splits)

lemma inj_multicastGroup_spec: "inj multicastGroup_spec"
proof (rule injI)
  fix x y :: nat
  assume "multicastGroup_spec x = multicastGroup_spec y"
  then have "x div 256 = y div 256" and "x mod 256 = y mod 256"
    by (simp_all add: multicastGroup_spec_def)
  then show "x = y"
    by (metis div_mult_mod_eq)
qed

subsection \<open>The constructor and runs\<close>

lemma Server_Number:
  "heap (Server e st (Number n) p) = st\<lparr>arrays := arrays st @ [[n]]\<rparr>"
  "universes (Server e st (Number n) p) = length (arrays st)"
  "port (Server e st (Number n) p) = port_or p (DEFAULT_PORT e)"
  "config (Server e st (Number n) p) = None"
  by (simp_all add: Server_def instanceofObject_def allocArray_def Let_def)

lemma Server_Undefined:
  "heap (Server e st Undefined p) =
     st\<lparr>arrays := arrays st @ [[]], objects := objects st @ [empty_config]\<rparr>"
  "universes (Server e st Undefined p) = length (arrays st)"
  "port (Server e st Undefined p) = port_or p (DEFAULT_PORT e)"
  by (simp_all add: Server_def allocArray_def allocObject_def properties_def empty_config_def
        port_or_def Let_def)

lemma Server_ConfigRef_port:
  "a < length (objects st) \<Longrightarrow>
   port (Server e st (ConfigRef a) p) =
     port_or (cfg_port (objects st ! a)) (port_or p (DEFAULT_PORT e))"
  by (simp add: Server_def instanceofObject_def allocArray_def properties_def setUniverses_def
        Let_def split: cfg_value.splits prod.splits)

lemma Server_ConfigRef_Number:
  assumes "a < length (objects st)" and "cfg_universes (objects st ! a) = CNumber n"
  shows "heap (Server e st (ConfigRef a) p) =
           \<lparr>arrays = arrays st @ [[n]],
            objects = (objects st)[a := (objects st ! a)\<lparr>cfg_universes := CArray (length (arrays st))\<rparr>]\<rparr>"
    and "universes (Server e st (ConfigRef a) p) = length (arrays st)"
  using assms
  by (simp_all add: Server_def instanceofObject_def allocArray_def properties_def
        setUniverses_def Let_def)

lemma Server_ConfigRef_Undefined:
  assumes "a < length (objects st)" and "cfg_universes (objects st ! a) = CUndefined"
  shows "heap (Server e st (ConfigRef a) p) = st\<lparr>arrays := arrays st @ [[]]\<rparr>"
    and "universes (Server e st (ConfigRef a) p) = length (arrays st)"
  using assms
  by (simp_all add: Server_def instanceofObject_def allocArray_def properties_def Let_def)

lemma Server_ConfigRef_Array:
  assumes "a < length (objects st)" and "cfg_universes (objects st ! a) = CArray r"
  shows "heap (Server e st (ConfigRef a) p) = st"
    and "universes (Server e st (ConfigRef a) p) = r"
  using assms
  by (simp_all add: Server_def instanceofObject_def properties_def Let_def)

text \<open>
  The constructor yields a server whose universes array is allocated, provided the
  addresses it is given are: the configuration object exists and, when its
  \<^verbatim>\<open>universes\<close> is an array, so does that array.
\<close>

lemma Server_valid:
  assumes "case a of
             ConfigRef c \<Rightarrow>
               c < length (objects st) \<and>
               (case cfg_universes (objects st ! c) of
                  CArray r \<Rightarrow> r < length (arrays st)
                | _ \<Rightarrow> True)
           | _ \<Rightarrow> True"
  shows "valid (Server e st a p)"
  using assms
  by (auto simp: valid_def Server_def instanceofObject_def allocArray_def allocObject_def
        properties_def setUniverses_def empty_config_def Let_def
        split: arg.splits cfg_value.splits prod.splits)

lemma Server_socket:
  "emitted (Server e st a p) = [] \<and>
   (\<exists>r b. socket (Server e st a p) = [CreateSocket r, Bind (port (Server e st a p)) b])"
  by (auto simp: Server_def Let_def split: prod.splits)

lemma step_simps:
  "universes (step e s a) = universes s"
  "valid (step e s a) = valid s"
  by (cases a;
      simp add: listening_def onListening_def emit_simps bindCallback_simps valid_def
        addUniverses_simps dropUniverses_simps onMessage_def Let_def)+

lemma run_simps:
  "universes (run e s acts) = universes s"
  "valid (run e s acts) = valid s"
  by (induction acts arbitrary: s; simp add: run_Nil run_Cons step_simps)+

subsection \<open>Bind completion and close\<close>

lemma listening_simps:
  "heap (listening e s) = heap s"
  "universes (listening e s) = universes s"
  "mcastif (listening e s) = mcastif s"
  "config (listening e s) = config s"
  "tracked (listening e s) = tracked s"
  "valid (listening e s) = valid s"
  "socket (listening e s) = socket (bindCallback e s)"
  "lastSequenceNumber (listening e s) = lastSequenceNumber (bindCallback e s)"
  "emitted (listening e s) = emitted s @ [EvListening]"
  by (simp_all add: listening_def onListening_def emit_simps bindCallback_simps
        bindCallback_tracked valid_def)

lemma properties_objects:
  "objects st = objects st' \<Longrightarrow> properties st v = properties st' v"
  by (simp add: properties_def split: arg.splits)

lemma membership_bindOptions: "membership (cs @ bindOptions s) = membership cs"
  by (simp add: bindOptions_def membership_def membershipStep_def split: option.splits)

lemma membership_bindCallback:
  "membership (socket (bindCallback e s)) =
     membership (socket s) \<union> getMulticastGroup e ` set (tracked s)"
proof -
  have "membership ((socket s @ bindOptions s) @
          map (\<lambda>u. AddMembership (getMulticastGroup e u) (if config s = None then None else mcastif s))
            (tracked s)) =
        membership (socket s @ bindOptions s) \<union> getMulticastGroup e ` set (tracked s)"
    by (rule membership_adds)
  then show ?thesis
    by (simp add: bindCallback_socket membership_bindOptions)
qed


subsection \<open>Evaluation of concrete servers\<close>

lemmas eval_defs = module5568_def e131_spec_def storeUniverse1_def serverUniverse1_def
  serverEmpty_def malformed_def storeTwice5_def serverTwice5_def storeThree_def serverClosed_def
  Server_def listening_def onListening_def bindCallback_def joinTracked_def joinOnly_def
  onMessage_def emit_def call_def tracked_def elems_def setElems_def properties_def
  setUniverses_def allocArray_def allocObject_def instanceofObject_def port_or_def
  empty_config_def empty_store_def datagram_def discard_spec_def multicastGroup_spec_def
  addUniverses_def addUniverse_def dropUniverses_def dropUniverse_def splice1_def
  argElems_def
  close_def onClose_def onError_def run_def joined_def membership_def membershipStep_def
  valid_def bindOptions_def Let_def

section \<open>The receive path\<close>

text \<open>
  C1 (as amended). A datagram that passes validation and that the discard predicate
  classifies as stale for the stored last-seen value of its universe emits
  \<^verbatim>\<open>packet-out-of-order\<close>, and the handler then stores the datagram's sequence number
  as the last-seen value of that universe (line 96 runs after both branches). The values
  of all other universes stay as they are.
\<close>

theorem stale_packet_overwrites_last_seen:
  assumes "validate e (Packet e msg) = ERR_NONE e"
    and "discard e (Packet e msg) (lastSequenceNumber s (getUniverse e (Packet e msg)))"
  shows "emitted (onMessage e s msg) = emitted s @ [EvPacketOutOfOrder (Packet e msg)] \<and>
         lastSequenceNumber (onMessage e s msg) =
           (lastSequenceNumber s)(getUniverse e (Packet e msg) \<mapsto> getSequenceNumber e (Packet e msg))"
  using assms by (simp add: onMessage_def Let_def emit_simps)

text \<open>
  Witness: universe 1 has last-seen value 10 and a datagram with sequence number 9
  arrives.
\<close>

theorem stale_packet_overwrites_last_seen_witness:
  "validate module5568 (Packet module5568 (datagram 1 9)) = ERR_NONE module5568 \<and>
   discard module5568 (Packet module5568 (datagram 1 9))
     (lastSequenceNumber (onMessage module5568 serverUniverse1 (datagram 1 10))
        (getUniverse module5568 (Packet module5568 (datagram 1 9)))) \<and>
   emitted (onMessage module5568 (onMessage module5568 serverUniverse1 (datagram 1 10)) (datagram 1 9)) =
     emitted (onMessage module5568 serverUniverse1 (datagram 1 10)) @ [EvPacketOutOfOrder (datagram 1 9)] \<and>
   lastSequenceNumber
     (onMessage module5568 (onMessage module5568 serverUniverse1 (datagram 1 10)) (datagram 1 9)) =
     (lastSequenceNumber (onMessage module5568 serverUniverse1 (datagram 1 10)))(1 \<mapsto> 9)"
proof -
  have v: "validate module5568 (Packet module5568 (datagram 1 9)) = ERR_NONE module5568"
    by (simp add: eval_defs)
  have d: "discard module5568 (Packet module5568 (datagram 1 9))
     (lastSequenceNumber (onMessage module5568 serverUniverse1 (datagram 1 10))
        (getUniverse module5568 (Packet module5568 (datagram 1 9))))"
    by (simp add: eval_defs)
  have p: "Packet module5568 (datagram 1 9) = datagram 1 9"
    "getUniverse module5568 (datagram 1 9) = 1" "getSequenceNumber module5568 (datagram 1 9) = 9"
    by (simp_all add: eval_defs)
  show ?thesis
    using stale_packet_overwrites_last_seen [OF v d] v d by (simp only: p)
qed

text \<open>
  The claim as stated fails: after \<^verbatim>\<open>new Server({universes: [1]})\<close> is bound and a
  datagram with sequence number 10 has been accepted for universe 1, a datagram with
  sequence number 9 is stale, and the last-seen value of universe 1 becomes 9.
\<close>

theorem stale_packet_counterexample:
  "lastSequenceNumber (onMessage module5568 serverUniverse1 (datagram 1 10)) 1 = Some 10 \<and>
   validate module5568 (Packet module5568 (datagram 1 9)) = ERR_NONE module5568 \<and>
   discard module5568 (Packet module5568 (datagram 1 9))
     (lastSequenceNumber (onMessage module5568 serverUniverse1 (datagram 1 10)) 1) \<and>
   lastSequenceNumber
     (onMessage module5568 (onMessage module5568 serverUniverse1 (datagram 1 10)) (datagram 1 9)) 1
     = Some 9"
  by (simp add: eval_defs)

text \<open>
  C6. A datagram that fails validation emits \<^verbatim>\<open>packet-error\<close> with the packet and
  the validation result, and the whole map of last-seen sequence numbers stays as it is
  (so do the tracked universes and the socket).
\<close>

theorem invalid_packet_reported:
  assumes "validate e (Packet e msg) \<noteq> ERR_NONE e"
  shows "emitted (onMessage e s msg) =
           emitted s @ [EvPacketError (Packet e msg) (validate e (Packet e msg))] \<and>
         lastSequenceNumber (onMessage e s msg) = lastSequenceNumber s \<and>
         heap (onMessage e s msg) = heap s \<and>
         universes (onMessage e s msg) = universes s \<and>
         socket (onMessage e s msg) = socket s"
  using assms by (simp add: onMessage_def Let_def emit_simps)

theorem invalid_packet_reported_witness:
  "validate module5568 (Packet module5568 malformed) \<noteq> ERR_NONE module5568 \<and>
   emitted (onMessage module5568 serverUniverse1 malformed) =
     [EvListening, EvPacketError malformed (Some ''root layer'')] \<and>
   lastSequenceNumber (onMessage module5568 serverUniverse1 malformed) =
     lastSequenceNumber serverUniverse1 \<and>
   lastSequenceNumber serverUniverse1 1 = Some 0"
proof -
  have v: "validate module5568 (Packet module5568 malformed) \<noteq> ERR_NONE module5568"
    by (simp add: eval_defs)
  have p: "Packet module5568 malformed = malformed"
    "validate module5568 malformed = Some ''root layer''"
    by (simp_all add: eval_defs)
  have s: "emitted serverUniverse1 = [EvListening]" "lastSequenceNumber serverUniverse1 1 = Some 0"
    by (simp_all add: eval_defs)
  show ?thesis
    using invalid_packet_reported [OF v, of serverUniverse1] v
    by (simp add: p s del: One_nat_def)
qed

text \<open>
  C7. A datagram that passes validation appends exactly one event, which is
  \<^verbatim>\<open>packet-out-of-order\<close> when the discard predicate holds and \<^verbatim>\<open>packet\<close>
  otherwise; when the predicate accepts the datagram the event is \<^verbatim>\<open>packet\<close> and
  the last-seen value of the universe becomes the datagram's sequence number.
\<close>

theorem valid_packet_one_event:
  assumes "validate e (Packet e msg) = ERR_NONE e"
  shows "emitted (onMessage e s msg) =
           emitted s @
             [if discard e (Packet e msg) (lastSequenceNumber s (getUniverse e (Packet e msg)))
              then EvPacketOutOfOrder (Packet e msg) else EvPacket (Packet e msg)] \<and>
         (\<not> discard e (Packet e msg) (lastSequenceNumber s (getUniverse e (Packet e msg))) \<longrightarrow>
            emitted (onMessage e s msg) = emitted s @ [EvPacket (Packet e msg)] \<and>
            lastSequenceNumber (onMessage e s msg) (getUniverse e (Packet e msg)) =
              Some (getSequenceNumber e (Packet e msg)))"
  using assms by (simp add: onMessage_def Let_def emit_simps)

theorem valid_packet_one_event_witness:
  "validate module5568 (Packet module5568 (datagram 1 10)) = ERR_NONE module5568 \<and>
   \<not> discard module5568 (Packet module5568 (datagram 1 10))
       (lastSequenceNumber serverUniverse1
          (getUniverse module5568 (Packet module5568 (datagram 1 10)))) \<and>
   emitted (onMessage module5568 serverUniverse1 (datagram 1 10)) =
     emitted serverUniverse1 @ [EvPacket (datagram 1 10)] \<and>
   lastSequenceNumber (onMessage module5568 serverUniverse1 (datagram 1 10)) 1 = Some 10"
proof -
  have v: "validate module5568 (Packet module5568 (datagram 1 10)) = ERR_NONE module5568"
    by (simp add: eval_defs)
  have d: "\<not> discard module5568 (Packet module5568 (datagram 1 10))
       (lastSequenceNumber serverUniverse1
          (getUniverse module5568 (Packet module5568 (datagram 1 10))))"
    by (simp add: eval_defs)
  have p: "Packet module5568 (datagram 1 10) = datagram 1 10"
    "getUniverse module5568 (datagram 1 10) = 1" "getSequenceNumber module5568 (datagram 1 10) = 10"
    by (simp_all add: eval_defs)
  show ?thesis
    using valid_packet_one_event [OF v, of serverUniverse1] v d
    by (simp add: p del: One_nat_def)
qed

section \<open>Adding and dropping universes\<close>

text \<open>
  C4. \<^verbatim>\<open>addUniverses\<close> appends to the tracked list the universes of its argument that
  are not tracked, each once and in the order of first occurrence, gives each of them the
  last-seen value 0 and issues one \<^verbatim>\<open>addMembership\<close> call for its group. A universe
  that is already tracked, or that occurs again later in the argument, is left as it is:
  its last-seen value does not change and no call is made for it. No event is emitted.
  This is stated for an array literal as argument; an array of the store other than
  \<^verbatim>\<open>this.universes\<close> gives what the literal with its elements gives, and the array
  \<^verbatim>\<open>this.universes\<close> itself changes nothing.
\<close>

theorem addUniverses_adds_untracked:
  assumes "valid s"
  shows "tracked (addUniverses e s (Literal us)) = tracked s @ newUniverses (tracked s) us \<and>
         set (newUniverses (tracked s) us) = set us - set (tracked s) \<and>
         distinct (newUniverses (tracked s) us) \<and>
         (\<forall>u. lastSequenceNumber (addUniverses e s (Literal us)) u =
                (if u \<in> set us \<and> u \<notin> set (tracked s) then Some 0
                 else lastSequenceNumber s u)) \<and>
         socket (addUniverses e s (Literal us)) =
           socket s @ map (\<lambda>u. AddMembership (getMulticastGroup e u) (mcastif s))
                        (newUniverses (tracked s) us) \<and>
         emitted (addUniverses e s (Literal us)) = emitted s \<and>
         (a \<noteq> universes s \<longrightarrow>
            addUniverses e s (Stored a) = addUniverses e s (Literal (elems (heap s) a))) \<and>
         addUniverses e s (Stored (universes s)) = s"
  using assms
  by (simp add: addUniverses_Literal addUniverses_Stored addUniverses_of_tracked
        addEach_tracked addEach_socket addEach_lastSequenceNumber addEach_simps
        set_newUniverses distinct_newUniverses)

text \<open>
  Witness, the scenario of the specification: \<^verbatim>\<open>new Server()\<close> followed by
  \<^verbatim>\<open>addUniverses([5, 5, 7])\<close> tracks 5 and 7, both with last-seen value 0, and joins
  each group once. And a server with no tracked universe is given the caller's stored
  array \<^verbatim>\<open>[1, 2]\<close>.
\<close>

theorem addUniverses_adds_untracked_witness:
  "valid serverEmpty \<and>
   tracked serverEmpty = [] \<and>
   tracked (addUniverses module5568 serverEmpty (Literal [5, 5, 7])) = [5, 7] \<and>
   lastSequenceNumber (addUniverses module5568 serverEmpty (Literal [5, 5, 7])) 5 = Some 0 \<and>
   lastSequenceNumber (addUniverses module5568 serverEmpty (Literal [5, 5, 7])) 7 = Some 0 \<and>
   dom (lastSequenceNumber (addUniverses module5568 serverEmpty (Literal [5, 5, 7]))) = {5, 7} \<and>
   socket (addUniverses module5568 serverEmpty (Literal [5, 5, 7])) =
     socket serverEmpty @
       [AddMembership (239, 255, 0, 5) None, AddMembership (239, 255, 0, 7) None] \<and>
   valid (Server module5568 storeThree (ConfigRef 1) None) \<and>
   0 \<noteq> universes (Server module5568 storeThree (ConfigRef 1) None) \<and>
   tracked (addUniverses module5568 (Server module5568 storeThree (ConfigRef 1) None) (Stored 0)) =
     [1, 2]"
proof -
  have v: "valid serverEmpty"
    by (simp add: eval_defs)
  have t: "tracked serverEmpty = []" "mcastif serverEmpty = None"
    "lastSequenceNumber serverEmpty = Map.empty"
    by (simp_all add: eval_defs)
  have g: "getMulticastGroup module5568 5 = (239, 255, 0, 5)"
    "getMulticastGroup module5568 7 = (239, 255, 0, 7)"
    by (simp_all add: eval_defs)
  let ?s = "Server module5568 storeThree (ConfigRef 1) None ::
              (packet, string option, nat \<times> nat \<times> nat \<times> nat) server"
  have v3: "valid ?s"
    by (simp add: eval_defs)
  have t3: "universes ?s = 2" "tracked ?s = []" "elems (heap ?s) 0 = [1, 2]"
    by (simp_all add: eval_defs)
  have n3: "newUniverses [] [1, 2] = [1, 2]"
    by simp
  show ?thesis
    using addUniverses_adds_untracked [OF v, where e = module5568 and us = "[5, 5, 7]"
            and a = 0]
          addUniverses_adds_untracked [OF v3, where e = module5568 and us = "[1, 2]"
            and a = 0] v v3
    by (auto simp: t g t3 n3 dom_def simp del: One_nat_def)
qed




section \<open>Membership and sequence state\<close>

text \<open>
  C2 (as amended). For a server constructed in the configuration form (the first
  parameter is an object or undefined) and a resolver that gives different universes
  different groups: after construction and after any sequence of bind completions,
  \<^verbatim>\<open>addUniverses\<close> and \<^verbatim>\<open>dropUniverses\<close> calls and received datagrams, in which
  every datagram that passes validation is for a universe that has a last-seen sequence
  number when it arrives, the universes whose multicast group the socket has been asked
  to join and not since to leave are exactly the keys of the last-seen map.
\<close>

theorem membership_matches_sequence_state:
  assumes "inj (getMulticastGroup e)"
    and "instanceofObject a \<or> a = Undefined"
    and "knownUniversesOnly e (Server e st a p) acts"
  shows "\<forall>u. joined e (run e (Server e st a p) acts) u =
             (lastSequenceNumber (run e (Server e st a p) acts) u \<noteq> None)"
proof -
  have "synchronized e (Server e st a p)"
    using assms(2) by (simp add: synchronized_def joined_def Server_configuration_form)
  with assms have "synchronized e (run e (Server e st a p) acts)"
    by (simp add: synchronized_run Server_configuration_form)
  then show ?thesis
    by (simp add: synchronized_def)
qed

text \<open>
  Witness: \<^verbatim>\<open>new Server({universes: [1]})\<close> is bound, universe 5 is added, a datagram
  for universe 1 is accepted, universe 1 is dropped and a malformed datagram arrives.
\<close>

theorem membership_matches_sequence_state_witness:
  "inj (getMulticastGroup module5568) \<and>
   (instanceofObject (ConfigRef 0) \<or> ConfigRef 0 = Undefined) \<and>
   knownUniversesOnly module5568 (Server module5568 storeUniverse1 (ConfigRef 0) None)
     [Listening, AddUniverses (Literal [5]), Message (datagram 1 10), DropUniverses (Literal [1]), Message malformed] \<and>
   joined module5568
     (run module5568 (Server module5568 storeUniverse1 (ConfigRef 0) None)
        [Listening, AddUniverses (Literal [5]), Message (datagram 1 10), DropUniverses (Literal [1]), Message malformed]) 5 \<and>
   lastSequenceNumber
     (run module5568 (Server module5568 storeUniverse1 (ConfigRef 0) None)
        [Listening, AddUniverses (Literal [5]), Message (datagram 1 10), DropUniverses (Literal [1]), Message malformed]) 5
     = Some 0 \<and>
   \<not> joined module5568
     (run module5568 (Server module5568 storeUniverse1 (ConfigRef 0) None)
        [Listening, AddUniverses (Literal [5]), Message (datagram 1 10), DropUniverses (Literal [1]), Message malformed]) 1 \<and>
   lastSequenceNumber
     (run module5568 (Server module5568 storeUniverse1 (ConfigRef 0) None)
        [Listening, AddUniverses (Literal [5]), Message (datagram 1 10), DropUniverses (Literal [1]), Message malformed]) 1
     = None"
proof -
  let ?acts = "[Listening, AddUniverses (Literal [5]), Message (datagram 1 10), DropUniverses (Literal [1]),
                Message malformed]"
  let ?s = "run module5568 (Server module5568 storeUniverse1 (ConfigRef 0) None) ?acts"
  have i: "inj (getMulticastGroup module5568)"
    by (simp add: module5568_def e131_spec_def inj_multicastGroup_spec)
  have f: "instanceofObject (ConfigRef 0) \<or> ConfigRef 0 = Undefined"
    by (simp add: instanceofObject_def)
  have k: "knownUniversesOnly module5568 (Server module5568 storeUniverse1 (ConfigRef 0) None) ?acts"
    by (simp add: eval_defs)
  have l: "lastSequenceNumber ?s 5 = Some 0" "lastSequenceNumber ?s 1 = None"
    by (simp_all add: eval_defs)
  show ?thesis
    using membership_matches_sequence_state [OF i f k] i f k l
    by (simp del: One_nat_def)
qed

text \<open>
  The claim as stated fails in two ways. A datagram that passes validation gets a
  last-seen value whatever its universe: after \<^verbatim>\<open>new Server()\<close> is bound, a datagram
  for universe 9 leaves a key 9 and no joined group. And the bind callback of the
  positional form joins the groups without storing sequence numbers: after
  \<^verbatim>\<open>new Server(1)\<close> is bound, the group of universe 1 is joined and the map is empty.
\<close>

theorem membership_counterexample:
  "lastSequenceNumber (run module5568 serverEmpty [Listening, Message (datagram 9 1)]) 9 = Some 1 \<and>
   \<not> joined module5568 (run module5568 serverEmpty [Listening, Message (datagram 9 1)]) 9 \<and>
   joined module5568
     (run module5568 (Server module5568 empty_store (Number 1) None) [Listening]) 1 \<and>
   lastSequenceNumber
     (run module5568 (Server module5568 empty_store (Number 1) None) [Listening]) 1 = None"
  by (simp add: eval_defs)

section \<open>The constructor\<close>

text \<open>
  C3 (as amended). In the positional form a single number becomes the one-element
  tracked list. When the first parameter is omitted the constructor takes the
  configuration path with an empty configuration, so the tracked list is empty (the
  default \<^verbatim>\<open>[0x01]\<close> of line 63 is not reached). In the configuration form a single
  \<^verbatim>\<open>universes\<close> value is wrapped into a one-element list, a list is taken as it is and
  the default is the empty list. The port is \<^verbatim>\<open>config.port || port || DEFAULT_PORT\<close>,
  respectively \<^verbatim>\<open>port || DEFAULT_PORT\<close>, hence the default port when none is given.
\<close>

theorem constructor_forms:
  "tracked (Server e st (Number n) p) = [n] \<and>
   port (Server e st (Number n) p) = port_or p (DEFAULT_PORT e) \<and>
   port (Server e st (Number n) None) = DEFAULT_PORT e \<and>
   tracked (Server e st Undefined p) = [] \<and>
   port (Server e st Undefined p) = port_or p (DEFAULT_PORT e) \<and>
   (a < length (objects st) \<longrightarrow>
      (cfg_universes (objects st ! a) = CNumber n \<longrightarrow>
         tracked (Server e st (ConfigRef a) p) = [n]) \<and>
      (cfg_universes (objects st ! a) = CUndefined \<longrightarrow>
         tracked (Server e st (ConfigRef a) p) = []) \<and>
      (cfg_universes (objects st ! a) = CArray r \<and> r < length (arrays st) \<longrightarrow>
         tracked (Server e st (ConfigRef a) p) = arrays st ! r) \<and>
      port (Server e st (ConfigRef a) p) =
        port_or (cfg_port (objects st ! a)) (port_or p (DEFAULT_PORT e)) \<and>
      (cfg_port (objects st ! a) = None \<longrightarrow>
         port (Server e st (ConfigRef a) None) = DEFAULT_PORT e))"
  by (simp add: tracked_def elems_def Server_Number Server_Undefined Server_ConfigRef_port
        Server_ConfigRef_Number Server_ConfigRef_Undefined Server_ConfigRef_Array port_or_def)

text \<open>
  Witness: the three configuration objects of \<open>storeThree\<close>.
\<close>

theorem constructor_forms_witness:
  "0 < length (objects storeThree) \<and>
   cfg_universes (objects storeThree ! 0) = CNumber 3 \<and>
   tracked (Server module5568 storeThree (ConfigRef 0) None) = [3] \<and>
   1 < length (objects storeThree) \<and>
   cfg_universes (objects storeThree ! 1) = CUndefined \<and>
   cfg_port (objects storeThree ! 1) = None \<and>
   tracked (Server module5568 storeThree (ConfigRef 1) None) = [] \<and>
   port (Server module5568 storeThree (ConfigRef 1) None) = 5568 \<and>
   2 < length (objects storeThree) \<and>
   cfg_universes (objects storeThree ! 2) = CArray 0 \<and>
   0 < length (arrays storeThree) \<and>
   tracked (Server module5568 storeThree (ConfigRef 2) None) = [1, 2] \<and>
   port (Server module5568 storeThree (ConfigRef 2) None) = 6000 \<and>
   tracked (Server module5568 storeThree (Number 4) None) = [4]"
proof -
  have o: "length (objects storeThree) = 3" "length (arrays storeThree) = 2"
    "arrays storeThree ! 0 = [1, 2]"
    "cfg_universes (objects storeThree ! 0) = CNumber 3"
    "cfg_universes (objects storeThree ! 1) = CUndefined"
    "cfg_port (objects storeThree ! 1) = None"
    "cfg_universes (objects storeThree ! 2) = CArray 0"
    "cfg_port (objects storeThree ! 2) = Some 6000"
    "DEFAULT_PORT module5568 = 5568"
    by (simp_all add: eval_defs)
  show ?thesis
    using constructor_forms [where e = module5568 and st = storeThree and a = 0 and n = 3
            and p = None and r = 0]
          constructor_forms [where e = module5568 and st = storeThree and a = 1 and n = 4
            and p = None and r = 0]
          constructor_forms [where e = module5568 and st = storeThree and a = 2 and n = 4
            and p = None and r = 0]
    by (simp add: o port_or_def del: One_nat_def)
qed

text \<open>
  The claim as stated fails: \<^verbatim>\<open>new Server(undefined, 6000)\<close>, the positional form with
  the universes omitted, tracks no universe.
\<close>

theorem constructor_default_counterexample:
  "tracked (Server module5568 empty_store Undefined (Some 6000)) = [] \<and>
   port (Server module5568 empty_store Undefined (Some 6000)) = 6000"
  by (simp add: eval_defs)

text \<open>
  An array as first parameter is an instance of \<^verbatim>\<open>Object\<close>, so line 35 sends it down
  the configuration path, where it is read as a configuration without properties: the
  tracked list is a new empty array.
\<close>

lemma positional_array_is_read_as_configuration:
  "tracked (Server e st (ArrayRef r) p) = [] \<and>
   universes (Server e st (ArrayRef r) p) = length (arrays st) \<and>
   config (Server e st (ArrayRef r) p) = Some (ArrayRef r)"
  by (simp add: Server_def instanceofObject_def properties_def empty_config_def allocArray_def
        tracked_def elems_def Let_def)

text \<open>
  C10. The configuration form keeps the caller's objects. When \<^verbatim>\<open>universes\<close> of the
  configuration is a single number, the caller's configuration object is changed in place:
  its \<^verbatim>\<open>universes\<close> becomes a new one-element array, which is the server's tracked
  list. When it is an array, the store is left as it is and the server's tracked list is
  that same array: the server never rebinds it, and after any run every
  \<^verbatim>\<open>addUniverses\<close> and \<^verbatim>\<open>dropUniverses\<close> call writes to the caller's array and to
  no other. With an argument other than that array the caller's array gets the additions
  and loses the removals; with that array itself as argument \<^verbatim>\<open>addUniverses\<close> leaves
  it as it is and \<^verbatim>\<open>dropUniverses\<close> removes from it while walking it.
\<close>

theorem configuration_is_shared:
  assumes "a < length (objects st)"
  shows "(cfg_universes (objects st ! a) = CNumber n \<longrightarrow>
            objects (heap (Server e st (ConfigRef a) p)) =
              (objects st)[a := (objects st ! a)
                 \<lparr>cfg_universes := CArray (universes (Server e st (ConfigRef a) p))\<rparr>] \<and>
            universes (Server e st (ConfigRef a) p) = length (arrays st) \<and>
            tracked (Server e st (ConfigRef a) p) = [n]) \<and>
         (cfg_universes (objects st ! a) = CArray r \<and> r < length (arrays st) \<longrightarrow>
            heap (Server e st (ConfigRef a) p) = st \<and>
            universes (Server e st (ConfigRef a) p) = r \<and>
            universes (run e (Server e st (ConfigRef a) p) acts) = r \<and>
            universes (addUniverses e (run e (Server e st (ConfigRef a) p) acts) arr) = r \<and>
            universes (dropUniverses e (run e (Server e st (ConfigRef a) p) acts) arr) = r \<and>
            (b \<noteq> r \<longrightarrow>
               elems (heap (addUniverses e (run e (Server e st (ConfigRef a) p) acts) arr)) b =
                 elems (heap (run e (Server e st (ConfigRef a) p) acts)) b \<and>
               elems (heap (dropUniverses e (run e (Server e st (ConfigRef a) p) acts) arr)) b =
                 elems (heap (run e (Server e st (ConfigRef a) p) acts)) b) \<and>
            (arr \<noteq> Stored r \<longrightarrow>
               elems (heap (addUniverses e (run e (Server e st (ConfigRef a) p) acts) arr)) r =
                 elems (heap (run e (Server e st (ConfigRef a) p) acts)) r @
                 newUniverses (elems (heap (run e (Server e st (ConfigRef a) p) acts)) r)
                   (argElems (heap (run e (Server e st (ConfigRef a) p) acts)) arr) \<and>
               elems (heap (dropUniverses e (run e (Server e st (ConfigRef a) p) acts) arr)) r =
                 foldl (\<lambda>t u. remove1 u t)
                   (elems (heap (run e (Server e st (ConfigRef a) p) acts)) r)
                   (argElems (heap (run e (Server e st (ConfigRef a) p) acts)) arr)) \<and>
            elems (heap (addUniverses e (run e (Server e st (ConfigRef a) p) acts) (Stored r))) r =
              elems (heap (run e (Server e st (ConfigRef a) p) acts)) r \<and>
            elems (heap (dropUniverses e (run e (Server e st (ConfigRef a) p) acts) (Stored r))) r =
              dropLive (elems (heap (run e (Server e st (ConfigRef a) p) acts)) r) 0
                (length (elems (heap (run e (Server e st (ConfigRef a) p) acts)) r)))"
proof (intro conjI impI)
  assume n: "cfg_universes (objects st ! a) = CNumber n"
  show "objects (heap (Server e st (ConfigRef a) p)) =
          (objects st)[a := (objects st ! a)
             \<lparr>cfg_universes := CArray (universes (Server e st (ConfigRef a) p))\<rparr>]"
    using assms n by (simp add: Server_ConfigRef_Number)
  show "universes (Server e st (ConfigRef a) p) = length (arrays st)"
    using assms n by (simp add: Server_ConfigRef_Number)
  show "tracked (Server e st (ConfigRef a) p) = [n]"
    using assms n by (simp add: tracked_def elems_def Server_ConfigRef_Number)
next
  assume "cfg_universes (objects st ! a) = CArray r \<and> r < length (arrays st)"
  then have r: "cfg_universes (objects st ! a) = CArray r" and lt: "r < length (arrays st)"
    by simp_all
  let ?S = "Server e st (ConfigRef a) p"
  let ?R = "run e ?S acts"
  show h: "heap ?S = st" and u: "universes ?S = r"
    using assms r by (simp_all add: Server_ConfigRef_Array)
  show ur: "universes ?R = r"
    by (simp add: run_simps u)
  have v: "valid ?R"
    using lt by (simp add: run_simps) (simp add: valid_def h u)
  have t: "tracked ?R = elems (heap ?R) r"
    by (simp add: tracked_def ur)
  show "universes (addUniverses e ?R arr) = r" and "universes (dropUniverses e ?R arr) = r"
    by (simp_all add: addUniverses_simps dropUniverses_simps ur)
  {
    assume "b \<noteq> r"
    then show "elems (heap (addUniverses e ?R arr)) b = elems (heap ?R) b"
      and "elems (heap (dropUniverses e ?R arr)) b = elems (heap ?R) b"
      by (simp_all add: addUniverses_other_arrays dropUniverses_other_arrays ur)
  }
  {
    assume "arr \<noteq> Stored r"
    then have other: "arr \<noteq> Stored (universes ?R)"
      by (simp add: ur)
    have "tracked (addEach e ?R (argElems (heap ?R) arr)) =
            tracked ?R @ newUniverses (tracked ?R) (argElems (heap ?R) arr)"
      using v by (rule addEach_tracked)
    then show "elems (heap (addUniverses e ?R arr)) r =
                 elems (heap ?R) r @ newUniverses (elems (heap ?R) r) (argElems (heap ?R) arr)"
      by (simp add: addUniverses_addEach [OF other] t) (simp add: tracked_def addEach_simps ur)
    have "tracked (dropEach e ?R (argElems (heap ?R) arr)) =
            foldl (\<lambda>t u. remove1 u t) (tracked ?R) (argElems (heap ?R) arr)"
      using v by (rule dropEach_tracked)
    then show "elems (heap (dropUniverses e ?R arr)) r =
                 foldl (\<lambda>t u. remove1 u t) (elems (heap ?R) r) (argElems (heap ?R) arr)"
      by (simp add: dropUniverses_dropEach [OF other] t) (simp add: tracked_def dropEach_simps ur)
  }
  show "elems (heap (addUniverses e ?R (Stored r))) r = elems (heap ?R) r"
    using addUniverses_of_tracked [of e ?R] by (simp add: ur)
  show "elems (heap (dropUniverses e ?R (Stored r))) r =
          dropLive (elems (heap ?R) r) 0 (length (elems (heap ?R) r))"
    using dropUniverses_of_tracked [OF v, of e]
    by (simp add: ur t) (simp add: tracked_def dropUniverses_simps ur)
qed

text \<open>
  Witness: \<^verbatim>\<open>{universes: 3}\<close> becomes \<^verbatim>\<open>{universes: [3]}\<close>. With
  \<^verbatim>\<open>{universes: [1, 2], port: 6000}\<close> the caller's array at address 0 becomes
  \<^verbatim>\<open>[1, 2, 7]\<close> after \<^verbatim>\<open>addUniverses([7])\<close> and \<^verbatim>\<open>[2]\<close> after
  \<^verbatim>\<open>dropUniverses([1])\<close>; and when it has become \<^verbatim>\<open>[1, 2, 3]\<close>, dropping the
  caller's array itself leaves \<^verbatim>\<open>[2]\<close> in it.
\<close>

theorem configuration_is_shared_witness:
  "0 < length (objects storeThree) \<and>
   cfg_universes (objects storeThree ! 0) = CNumber 3 \<and>
   cfg_universes (objects (heap (Server module5568 storeThree (ConfigRef 0) None)) ! 0) = CArray 2 \<and>
   elems (heap (Server module5568 storeThree (ConfigRef 0) None)) 2 = [3] \<and>
   universes (Server module5568 storeThree (ConfigRef 0) None) = 2 \<and>
   2 < length (objects storeThree) \<and>
   cfg_universes (objects storeThree ! 2) = CArray 0 \<and> 0 < length (arrays storeThree) \<and>
   universes (Server module5568 storeThree (ConfigRef 2) None) = 0 \<and>
   elems storeThree 0 = [1, 2] \<and>
   Literal [7] \<noteq> Stored 0 \<and> (1 :: nat) \<noteq> 0 \<and>
   elems (heap (addUniverses module5568
            (run module5568 (Server module5568 storeThree (ConfigRef 2) None) [Listening])
            (Literal [7]))) 1
     = [9] \<and>
   elems (heap (addUniverses module5568
            (run module5568 (Server module5568 storeThree (ConfigRef 2) None) [Listening])
            (Literal [7]))) 0
     = [1, 2, 7] \<and>
   elems (heap (dropUniverses module5568
            (run module5568 (Server module5568 storeThree (ConfigRef 2) None) [Listening])
            (Literal [1]))) 0
     = [2] \<and>
   elems (heap (run module5568 (Server module5568 storeThree (ConfigRef 2) None)
                  [Listening, AddUniverses (Literal [3])])) 0
     = [1, 2, 3] \<and>
   elems (heap (dropUniverses module5568
            (run module5568 (Server module5568 storeThree (ConfigRef 2) None)
               [Listening, AddUniverses (Literal [3])])
            (Stored 0))) 0
     = [2]"
proof -
  let ?S = "Server module5568 storeThree (ConfigRef 2) None"
  have a0: "0 < length (objects storeThree)" and a2: "2 < length (objects storeThree)"
    by (simp_all add: eval_defs)
  have o: "cfg_universes (objects storeThree ! 0) = CNumber 3"
    "cfg_universes (objects storeThree ! 2) = CArray 0"
    "length (arrays storeThree) = 2" "elems storeThree 0 = [1, 2]" "elems storeThree 1 = [9]"
    by (simp_all add: eval_defs)
  have h: "heap (run module5568 ?S [Listening]) = storeThree"
    by (simp add: run_Nil run_Cons listening_def onListening_def emit_simps bindCallback_simps
          Server_ConfigRef_Array [OF a2 o(2)])
  have h3: "elems (heap (run module5568 ?S [Listening, AddUniverses (Literal [3])])) 0 = [1, 2, 3]"
    by (simp add: eval_defs)
  have e: "elems (heap (Server module5568 storeThree (ConfigRef 0) None)) 2 = [3]"
    "cfg_universes (objects (heap (Server module5568 storeThree (ConfigRef 0) None)) ! 0) = CArray 2"
    by (simp_all add: eval_defs)
  have x: "objects storeThree \<noteq> []"
    "cfg_universes
       ((objects storeThree)[0 := (objects storeThree ! 0)\<lparr>cfg_universes := CArray 2\<rparr>] ! 0) =
     CArray 2"
    by (simp_all add: eval_defs)
  show ?thesis
    using configuration_is_shared [OF a0, where e = module5568 and n = 3 and p = None and r = 0]
          configuration_is_shared [OF a2, where e = module5568 and n = 3 and p = None and r = 0
            and acts = "[Listening]" and arr = "Literal [7]" and b = 1]
          configuration_is_shared [OF a2, where e = module5568 and n = 3 and p = None and r = 0
            and acts = "[Listening]" and arr = "Literal [1]" and b = 1]
          configuration_is_shared [OF a2, where e = module5568 and n = 3 and p = None and r = 0
            and acts = "[Listening, AddUniverses (Literal [3])]" and arr = "Literal []" and b = 1]
    by (simp add: a0 a2 o h h3 e x argElems_def del: One_nat_def)
qed

section \<open>Bind completion and close\<close>

text \<open>
  C8 (as amended). \<^verbatim>\<open>addUniverses\<close> called on a server that has just been constructed,
  whose socket has been asked to bind and has reported nothing yet, makes the requested
  universes tracked, the new ones with last-seen value 0, and makes the
  \<^verbatim>\<open>addMembership\<close> calls for the new ones on the socket at once, directly after the
  \<^verbatim>\<open>bind\<close> call. Nothing is deferred and no event is emitted.
\<close>

theorem addUniverses_before_listening:
  assumes "valid (Server e st a p)"
  shows "emitted (Server e st a p) = [] \<and>
         (\<exists>r b. socket (Server e st a p) = [CreateSocket r, Bind (port (Server e st a p)) b]) \<and>
         set us \<subseteq> set (tracked (addUniverses e (Server e st a p) (Literal us))) \<and>
         (\<forall>u \<in> set us. u \<notin> set (tracked (Server e st a p)) \<longrightarrow>
            lastSequenceNumber (addUniverses e (Server e st a p) (Literal us)) u = Some 0) \<and>
         socket (addUniverses e (Server e st a p) (Literal us)) =
           socket (Server e st a p) @
           map (\<lambda>u. AddMembership (getMulticastGroup e u) (mcastif (Server e st a p)))
             (newUniverses (tracked (Server e st a p)) us) \<and>
         emitted (addUniverses e (Server e st a p) (Literal us)) = []"
proof (intro conjI)
  let ?S = "Server e st a p"
  show "emitted ?S = []" and "\<exists>r b. socket ?S = [CreateSocket r, Bind (port ?S) b]"
    using Server_socket [of e st a p] by simp_all
  have ta: "tracked (addUniverses e ?S (Literal us)) = tracked ?S @ newUniverses (tracked ?S) us"
    using assms by (simp add: addUniverses_Literal addEach_tracked)
  show "set us \<subseteq> set (tracked (addUniverses e ?S (Literal us)))"
    by (auto simp: ta set_newUniverses)
  show "\<forall>u \<in> set us. u \<notin> set (tracked ?S) \<longrightarrow>
          lastSequenceNumber (addUniverses e ?S (Literal us)) u = Some 0"
    using assms by (simp add: addUniverses_Literal addEach_lastSequenceNumber set_newUniverses)
  show "socket (addUniverses e ?S (Literal us)) =
          socket ?S @ map (\<lambda>u. AddMembership (getMulticastGroup e u) (mcastif ?S))
                        (newUniverses (tracked ?S) us)"
    using assms by (simp add: addUniverses_Literal addEach_socket)
  show "emitted (addUniverses e ?S (Literal us)) = []"
    using Server_socket [of e st a p] by (simp add: addUniverses_simps)
qed

text \<open>
  Witness: \<^verbatim>\<open>new Server()\<close>, then \<^verbatim>\<open>addUniverses([5])\<close>.
\<close>

theorem addUniverses_before_listening_witness:
  "valid (Server module5568 empty_store Undefined None) \<and>
   5 \<in> set [5] \<and> 5 \<notin> set (tracked (Server module5568 empty_store Undefined None)) \<and>
   5 \<in> set (tracked (addUniverses module5568 (Server module5568 empty_store Undefined None)
                       (Literal [5]))) \<and>
   lastSequenceNumber
     (addUniverses module5568 (Server module5568 empty_store Undefined None) (Literal [5])) 5
     = Some 0 \<and>
   socket (addUniverses module5568 (Server module5568 empty_store Undefined None) (Literal [5])) =
     [CreateSocket True, Bind 5568 None, AddMembership (239, 255, 0, 5) None] \<and>
   emitted (addUniverses module5568 (Server module5568 empty_store Undefined None) (Literal [5]))
     = []"
proof -
  let ?S = "Server module5568 empty_store Undefined None :: 
              (packet, string option, nat \<times> nat \<times> nat \<times> nat) server"
  have v: "valid ?S"
    by (simp add: eval_defs)
  have t: "tracked ?S = []" "mcastif ?S = None"
    "socket ?S = [CreateSocket True, Bind 5568 None]"
    "getMulticastGroup module5568 5 = (239, 255, 0, 5)"
    by (simp_all add: eval_defs)
  show ?thesis
    using addUniverses_before_listening [OF v, of "[5]"] v
    by (simp add: t)
qed

text \<open>
  The claim as stated fails: after \<^verbatim>\<open>new Server()\<close>, when the socket has not yet
  reported anything, \<^verbatim>\<open>addUniverses([5])\<close> calls \<^verbatim>\<open>addMembership\<close> on the socket at
  once.
\<close>

theorem addUniverses_before_listening_counterexample:
  "socket serverEmpty = [CreateSocket True, Bind 5568 None] \<and>
   emitted serverEmpty = [] \<and>
   socket (addUniverses module5568 serverEmpty (Literal [5])) =
     [CreateSocket True, Bind 5568 None, AddMembership (239, 255, 0, 5) None]"
  by (simp add: eval_defs)




end
